theory Spec2Isabelle
  imports Main
begin

section \<open>JavaScript values\<close>

text \<open>
  The sample contexts handed to the template engine are JavaScript values: what
  \<^verbatim>\<open>require()\<close> of a \<^verbatim>\<open>.json\<close> file, the literal \<^verbatim>\<open>{}\<close> and
  \<^verbatim>\<open>JSON.parse\<close> produce, and what \<^verbatim>\<open>safeMarkup\<close> turns them into. A number is
  held as the text JavaScript prints for it (\<^verbatim>\<open>String(n)\<close>), so no floating point
  arithmetic is needed. An array carries, beside its elements, the named properties
  that were assigned to it (\<^verbatim>\<open>data.modifier_class = ...\<close> is legal on an array).
  \<open>JMarkup v\<close> is the value \<^verbatim>\<open>Twig.Markup(v)\<close> of the engine.
\<close>

datatype jsval =
    JUndefined
  | JNull
  | JBool bool
  | JNum string
  | JStr string
  | JMarkup jsval
  | JArr "jsval list" "(string \<times> jsval) list"
  | JObj "(string \<times> jsval) list"

text \<open>Truthiness, as \<^verbatim>\<open>x ? a : b\<close> and \<^verbatim>\<open>x || y\<close> test it.\<close>

fun truthy :: "jsval \<Rightarrow> bool" where
  "truthy JUndefined = False"
| "truthy JNull = False"
| "truthy (JBool b) = b"
| "truthy (JNum n) = (n \<noteq> ''0'' \<and> n \<noteq> ''NaN'')"
| "truthy (JStr s) = (s \<noteq> [])"
| "truthy (JMarkup v) = truthy v"
| "truthy (JArr xs ps) = True"
| "truthy (JObj kvs) = True"

fun join_with :: "string \<Rightarrow> string list \<Rightarrow> string" where
  "join_with sep [] = []"
| "join_with sep [x] = x"
| "join_with sep (x # y # ys) = x @ sep @ join_with sep (y # ys)"

text \<open>The string a value turns into when \<^verbatim>\<open>+\<close> joins it to a string.\<close>

fun to_string :: "jsval \<Rightarrow> string" where
  "to_string JUndefined = ''undefined''"
| "to_string JNull = ''null''"
| "to_string (JBool b) = (if b then ''true'' else ''false'')"
| "to_string (JNum n) = n"
| "to_string (JStr s) = s"
| "to_string (JMarkup v) = to_string v"
| "to_string (JArr xs ps) =
     join_with '','' (map (\<lambda>x. if x = JNull \<or> x = JUndefined then [] else to_string x) xs)"
| "to_string (JObj kvs) = ''[object Object]''"

text \<open>
  \<^verbatim>\<open>JSON.parse(JSON.stringify(v))\<close>: a structural copy. Named properties of an array
  are not serialised, a marked string is serialised as its text, an undefined property is
  left out and an undefined element becomes \<^verbatim>\<open>null\<close>.
\<close>

fun JSON_copy :: "jsval \<Rightarrow> jsval" where
  "JSON_copy (JMarkup v) = JSON_copy v"
| "JSON_copy (JArr xs ps) =
     JArr (map (\<lambda>x. if x = JUndefined then JNull else JSON_copy x) xs) []"
| "JSON_copy (JObj kvs) =
     JObj (map (\<lambda>(k, v). (k, JSON_copy v)) (filter (\<lambda>(k, v). v \<noteq> JUndefined) kvs))"
| "JSON_copy v = v"

text \<open>
  \<^verbatim>\<open>safeMarkup(input)\<close> (lines 153-168): the value it returns. Strings, numbers and
  booleans are wrapped by \<^verbatim>\<open>Twig.Markup\<close>; an array is mapped into a new array; the
  properties of an object are replaced one by one and the object itself is returned.
\<close>

fun safeMarkup :: "jsval \<Rightarrow> jsval" where
  "safeMarkup (JStr s) = JMarkup (JStr s)"
| "safeMarkup (JNum n) = JMarkup (JNum n)"
| "safeMarkup (JBool b) = JMarkup (JBool b)"
| "safeMarkup (JArr xs ps) = JArr (map safeMarkup xs) []"
| "safeMarkup (JObj kvs) = JObj (map (\<lambda>(k, v). (k, safeMarkup v)) kvs)"
| "safeMarkup v = v"

text \<open>
  What \<^verbatim>\<open>safeMarkup(input)\<close> leaves behind in its argument: an object has had its
  properties overwritten (\<^verbatim>\<open>input[key] = safeMarkup(input[key])\<close>); an array keeps its
  own elements and properties, but the objects among the elements have been overwritten
  in turn.
\<close>

fun safeMarkup_effect :: "jsval \<Rightarrow> jsval" where
  "safeMarkup_effect (JArr xs ps) = JArr (map safeMarkup_effect xs) ps"
| "safeMarkup_effect (JObj kvs) = JObj (map (\<lambda>(k, v). (k, safeMarkup v)) kvs)"
| "safeMarkup_effect v = v"

datatype error =
    Unable_to_find string
  | TwigError string
  | TypeError
  | WriteError string
  | Unsettled

text \<open>
  Reading \<^verbatim>\<open>data.modifier_class\<close>: a \<^verbatim>\<open>TypeError\<close> on \<^verbatim>\<open>null\<close> and
  \<^verbatim>\<open>undefined\<close>, \<^verbatim>\<open>undefined\<close> where the property is absent.
\<close>

fun get_modifier_class :: "jsval \<Rightarrow> error + jsval" where
  "get_modifier_class JUndefined = Inl TypeError"
| "get_modifier_class JNull = Inl TypeError"
| "get_modifier_class (JObj kvs) =
     (case map_of kvs ''modifier_class'' of None \<Rightarrow> Inr JUndefined | Some v \<Rightarrow> Inr v)"
| "get_modifier_class (JArr xs ps) =
     (case map_of ps ''modifier_class'' of None \<Rightarrow> Inr JUndefined | Some v \<Rightarrow> Inr v)"
| "get_modifier_class v = Inr JUndefined"

text \<open>A property assignment keeps the position of an existing key and appends a new one.\<close>

fun assign :: "string \<Rightarrow> jsval \<Rightarrow> (string \<times> jsval) list \<Rightarrow> (string \<times> jsval) list" where
  "assign k v [] = [(k, v)]"
| "assign k v (p # ps) = (if fst p = k then (k, v) # ps else p # assign k v ps)"

text \<open>
  Writing \<^verbatim>\<open>data.modifier_class = v\<close>. The file is in strict mode, where an assignment
  to a property of a primitive value is a \<^verbatim>\<open>TypeError\<close>.
\<close>

fun set_modifier_class :: "jsval \<Rightarrow> jsval \<Rightarrow> error + jsval" where
  "set_modifier_class v (JObj kvs) = Inr (JObj (assign ''modifier_class'' v kvs))"
| "set_modifier_class v (JArr xs ps) = Inr (JArr xs (assign ''modifier_class'' v ps))"
| "set_modifier_class v d = Inl TypeError"

section \<open>The heap of context objects\<close>

text \<open>
  Objects are shared by reference: the \<^verbatim>\<open>context\<close> of a template record is the very
  object \<^verbatim>\<open>require()\<close> returned, and every rendering of the section reads it. The heap
  is the list of the objects allocated so far; an address is an index into it.
\<close>

type_synonym heap = "jsval list"

definition alloc :: "jsval \<Rightarrow> heap \<Rightarrow> nat \<times> heap" where
  "alloc v h = (length h, h @ [v])"

definition deref :: "heap \<Rightarrow> nat \<Rightarrow> error + jsval" where
  "deref h a = (if a < length h then Inr (h ! a) else Inl TypeError)"

definition store :: "nat \<Rightarrow> jsval \<Rightarrow> heap \<Rightarrow> heap" where
  "store a v h = (if a < length h then h[a := v] else h)"

section \<open>The template engine and the builder\<close>

datatype twig_source = Data string | Path string

datatype twig_template = Template (twig_id: string) (twig_source: twig_source)

record modifier =
  modifier_className :: string

text \<open>A section of the style guide, with the fields of \<^verbatim>\<open>KssSection\<close> this file reads.\<close>

record kss_section =
  section_reference :: string
  section_referenceURI :: string
  section_header :: string
  section_markup :: string
  section_modifiers :: "modifier list"

record styleGuide =
  sections :: "kss_section list"
  meta_files :: "string list option"

text \<open>
  A section of \<^verbatim>\<open>context.sections\<close> in \<^verbatim>\<open>buildPage\<close>: the plain object
  \<^verbatim>\<open>section.toJSON()\<close> returns, after its \<^verbatim>\<open>markup\<close>, its \<^verbatim>\<open>example\<close> and the
  \<^verbatim>\<open>markup\<close> of its modifiers have been assigned. \<open>None\<close> is a property never
  assigned.
\<close>

record rendered_modifier =
  rendered_className :: string
  rendered_modifier_markup :: "string option"

record rendered_section =
  rendered_reference :: string
  rendered_markup :: string
  rendered_example :: "string option"
  rendered_modifiers :: "rendered_modifier list"

datatype page_kind = Index | Section | Item

text \<open>The context object a page template is rendered with (lines 527-539, 604-678).\<close>

record page_context =
  page_template :: page_kind
  page_sections :: "rendered_section list"
  page_styles :: string
  page_scripts :: string
  page_menu :: string
  page_homepage :: "string option"

record options =
  source :: "string list"
  destination :: string
  builder_dir :: string
  verbose :: bool
  placeholder :: string
  homepage :: string
  css :: "string list"
  js :: "string list"

text \<open>The entry of \<^verbatim>\<open>this.userTemplates\<close> that \<^verbatim>\<open>saveTemplate\<close> writes (lines 345-350).\<close>

record templateInfo =
  info_ref :: string
  info_context :: nat
  info_exampleRef :: "string option"
  info_exampleContext :: nat

text \<open>
  The builder object: \<^verbatim>\<open>this.templates\<close>, \<^verbatim>\<open>this.userTemplates\<close>, the registry of the
  global \<^verbatim>\<open>Twig\<close> object, the heap, the module cache of \<^verbatim>\<open>require()\<close> (a file that
  was loaded once gives the same object again), the lines given to \<^verbatim>\<open>this.log\<close> and
  the files written.
\<close>

record builder =
  templates_index :: "twig_template option"
  templates_section :: "twig_template option"
  templates_item :: "twig_template option"
  userTemplates :: "string \<rightharpoonup> templateInfo"
  registry :: "string \<rightharpoonup> twig_template"
  heap :: heap
  modules :: "string \<rightharpoonup> nat"
  log_lines :: "string list"
  written :: "(string \<times> string) list"

text \<open>
  Everything outside this file is a parameter: Node's \<^verbatim>\<open>path\<close> module, \<^verbatim>\<open>glob\<close>, the
  file system, what \<^verbatim>\<open>require()\<close> loads from a sample file that is not in the module
  cache (\<open>None\<close> when it throws), the Twig engine (whether it compiles a source under an
  identity, given the registry, and what a template renders), the menu of the base class
  and \<^verbatim>\<open>marked\<close>. \<open>settle_order\<close> is the order in which the searches started for a
  section complete.
\<close>

record environment =
  path_basename :: "string \<Rightarrow> string"
  path_basename_ext :: "string \<Rightarrow> string \<Rightarrow> string"
  path_dirname :: "string \<Rightarrow> string"
  path_join :: "string \<Rightarrow> string \<Rightarrow> string"
  path_resolve :: "string \<Rightarrow> string \<Rightarrow> string"
  glob :: "string \<Rightarrow> string list"
  settle_order :: "string \<Rightarrow> nat list"
  is_file :: "string \<Rightarrow> bool"
  twig_compiles :: "(string \<rightharpoonup> twig_template) \<Rightarrow> string \<Rightarrow> twig_source \<Rightarrow> bool"
  require :: "string \<Rightarrow> jsval option"
  render :: "twig_template \<Rightarrow> jsval \<Rightarrow> string option"
  render_page :: "twig_template \<Rightarrow> page_context \<Rightarrow> string option"
  createMenu :: "string option \<Rightarrow> string"
  readFile :: "string \<Rightarrow> string option"
  marked :: "string \<Rightarrow> string"
  writeFile :: "string \<Rightarrow> string \<Rightarrow> bool"

definition log :: "string \<Rightarrow> builder \<Rightarrow> builder" where
  "log line s = s\<lparr>log_lines := log_lines s @ [line]\<rparr>"

text \<open>\<^verbatim>\<open>Twig.registryReset()\<close> (lines 96-100).\<close>

definition registryReset :: "builder \<Rightarrow> builder" where
  "registryReset s = s\<lparr>registry := Map.empty\<rparr>"

text \<open>
  \<^verbatim>\<open>Twig.twigAsync\<close> (lines 116-149) called with an \<^verbatim>\<open>id\<close> and either \<^verbatim>\<open>data\<close> or a
  \<^verbatim>\<open>path\<close>. Empty \<^verbatim>\<open>data\<close> is falsy, so the call falls through to the \<^verbatim>\<open>fs.stat\<close>
  of a path that is not there. A compiled template is entered in the registry under its
  \<^verbatim>\<open>id\<close>.
\<close>

definition twig :: "environment \<Rightarrow> string \<Rightarrow> twig_source \<Rightarrow> builder \<Rightarrow> error + twig_template \<times> builder" where
  "twig env i src s =
     (if twig_compiles env (registry s) i src
      then Inr (Template i src, s\<lparr>registry := (registry s)(i \<mapsto> Template i src)\<rparr>)
      else Inl (TwigError i))"

fun twigAsync :: "environment \<Rightarrow> string \<Rightarrow> twig_source \<Rightarrow> builder \<Rightarrow> error + twig_template \<times> builder" where
  "twigAsync env i (Data d) s =
     (if d \<noteq> [] then twig env i (Data d) s else Inl (Unable_to_find ''undefined''))"
| "twigAsync env i (Path p) s =
     (if is_file env p then twig env i (Path p) s else Inl (Unable_to_find p))"

text \<open>
  \<^verbatim>\<open>Twig.twigAsync({ref: r})\<close>: the registered template, or \<^verbatim>\<open>null\<close> (here \<open>None\<close>)
  when the registry has none under that identity.
\<close>

definition twigAsync_ref :: "string \<Rightarrow> builder \<Rightarrow> error + twig_template option" where
  "twigAsync_ref r s = (if r \<noteq> [] then Inr (registry s r) else Inl (Unable_to_find ''undefined''))"

section \<open>Loading the page templates (lines 263-316)\<close>

definition load_index :: "environment \<Rightarrow> options \<Rightarrow> builder \<Rightarrow> error + builder" where
  "load_index env opts s =
     (case twigAsync env ''@builderTwig/index.twig''
             (Path (path_resolve env (builder_dir opts) ''index.twig'')) s of
        Inl e \<Rightarrow> Inl e
      | Inr (t, s') \<Rightarrow> Inr (s'\<lparr>templates_index := Some t\<rparr>))"

definition load_section :: "environment \<Rightarrow> options \<Rightarrow> builder \<Rightarrow> error + builder" where
  "load_section env opts s =
     (case twigAsync env ''@builderTwig/section.twig''
             (Path (path_resolve env (builder_dir opts) ''section.twig'')) s of
        Inl e \<Rightarrow> Inr (s\<lparr>templates_section := templates_index s\<rparr>)
      | Inr (t, s') \<Rightarrow> Inr (s'\<lparr>templates_section := Some t\<rparr>))"

definition load_item :: "environment \<Rightarrow> options \<Rightarrow> builder \<Rightarrow> error + builder" where
  "load_item env opts s =
     (case twigAsync env ''@builderTwig/item.twig''
             (Path (path_resolve env (builder_dir opts) ''item.twig'')) s of
        Inl e \<Rightarrow>
          Inr (s\<lparr>templates_item :=
                   (case templates_section s of Some t \<Rightarrow> Some t | None \<Rightarrow> templates_index s)\<rparr>)
      | Inr (t, s') \<Rightarrow> Inr (s'\<lparr>templates_item := Some t\<rparr>))"

text \<open>
  \<^verbatim>\<open>loadTask\<close>: the three \<^verbatim>\<open>typeof ... === 'undefined'\<close> tests are made when the build
  starts, on the builder as it is then; the loads are chained, and a failure of the
  first one leaves the later ones undone.
\<close>

definition loadTask :: "environment \<Rightarrow> options \<Rightarrow> builder \<Rightarrow> error + builder" where
  "loadTask env opts s =
     (case (if templates_index s = None then load_index env opts s else Inr s) of
        Inl e \<Rightarrow> Inl e
      | Inr s1 \<Rightarrow>
          (case (if templates_section s = None then load_section env opts s1 else Inr s1) of
             Inl e \<Rightarrow> Inl e
           | Inr s2 \<Rightarrow> (if templates_item s = None then load_item env opts s2 else Inr s2)))"

section \<open>Resolving the template of a section (lines 330-482)\<close>

text \<open>The \<^verbatim>\<open>template\<close> object of lines 368-377. \<^verbatim>\<open>exampleName: false\<close> is \<open>None\<close>.\<close>

record template =
  template_name :: string
  template_reference :: string
  template_file :: string
  template_markup :: string
  template_context :: nat
  template_exampleName :: "string option"
  template_exampleFile :: string
  template_exampleContext :: nat

definition new_template :: "kss_section \<Rightarrow> builder \<Rightarrow> template \<times> builder" where
  "new_template sec s =
     (let (c, h1) = alloc (JObj []) (heap s);
          (e, h2) = alloc (JObj []) h1
      in (\<lparr>template_name = section_reference sec,
           template_reference = section_reference sec,
           template_file = [],
           template_markup = section_markup sec,
           template_context = c,
           template_exampleName = None,
           template_exampleFile = [],
           template_exampleContext = e\<rparr>,
          s\<lparr>heap := h2\<rparr>))"

text \<open>
  \<^verbatim>\<open>template.markup.match(/^[^\n]+\.twig$/)\<close> (line 380): one or more characters other
  than a line feed, then \<^verbatim>\<open>.twig\<close>, then the end of the string.
\<close>

definition is_file_reference :: "string \<Rightarrow> bool" where
  "is_file_reference m =
     (let n = length m
      in 5 < n \<and> drop (n - 5) m = ''.twig'' \<and> CHR 0x0A \<notin> set (take (n - 5) m))"

definition compileInline :: "environment \<Rightarrow> template \<Rightarrow> builder \<Rightarrow> error + builder" where
  "compileInline env t s =
     (case twigAsync env (template_name t) (Data (template_markup t)) s of
        Inl e \<Rightarrow> Inl e
      | Inr (c, s') \<Rightarrow> Inr s')"

definition saveTemplate :: "template \<Rightarrow> builder \<Rightarrow> builder" where
  "saveTemplate t s =
     s\<lparr>userTemplates := (userTemplates s)(template_reference t \<mapsto>
         \<lparr>info_ref = template_name t,
          info_context = template_context t,
          info_exampleRef = (if template_exampleFile t \<noteq> [] then template_exampleName t else None),
          info_exampleContext = template_exampleContext t\<rparr>)\<rparr>"

text \<open>The searches started for a file reference (lines 395-399), two for each source.\<close>

definition findTemplates :: "options \<Rightarrow> template \<Rightarrow> string list" where
  "findTemplates opts t =
     concat (map (\<lambda>src. [src @ ''/**/'' @ template_file t,
                          src @ ''/**/kss-example-'' @ template_name t]) (source opts))"

text \<open>
  \<^verbatim>\<open>Promise.all\<close>: every promise stores its value in the slot of its own position when
  it completes, whatever the order of completion, and the array is delivered once every
  slot is filled.
\<close>

definition settle :: "nat list \<Rightarrow> 'a list \<Rightarrow> 'a option list" where
  "settle order results =
     fold (\<lambda>i slots. if i < length slots then slots[i := Some (results ! i)] else slots)
       order (replicate (length results) None)"

definition Promise_all :: "nat list \<Rightarrow> 'a list \<Rightarrow> 'a list option" where
  "Promise_all order results = those (settle order results)"

text \<open>
  The compilations pushed on \<^verbatim>\<open>compileTemplates\<close>, each with the identity and the
  source its \<^verbatim>\<open>twigAsync\<close> call was given: the main template (lines 413-427) and the
  example (lines 431-446), which load their sample context afterwards, and the inline
  ones (lines 458-469).
\<close>

datatype compile_task =
    Compile_template string string
  | Compile_example string string
  | Compile_data string string

record scan =
  foundTemplate :: bool
  foundExample :: bool
  scanned :: template
  compileTemplates :: "compile_task list"

text \<open>The inner loop \<^verbatim>\<open>for (let file of files)\<close> (lines 407-448).\<close>

fun scan_files :: "environment \<Rightarrow> string list \<Rightarrow> scan \<Rightarrow> scan" where
  "scan_files env [] sc = sc"
| "scan_files env (file # files) sc =
     (let filename = path_basename env file
      in if \<not> foundTemplate sc \<and> filename = template_name (scanned sc) then
           scan_files env files
             (sc\<lparr>foundTemplate := True,
                 scanned := (scanned sc)\<lparr>template_file := file\<rparr>,
                 compileTemplates :=
                   compileTemplates sc @ [Compile_template (template_name (scanned sc)) file]\<rparr>)
         else if \<not> foundExample sc \<and> Some filename = template_exampleName (scanned sc) then
           scan_files env files
             (sc\<lparr>foundExample := True,
                 scanned := (scanned sc)\<lparr>template_exampleFile := file\<rparr>,
                 compileTemplates :=
                   compileTemplates sc @ [Compile_example filename file]\<rparr>)
         else scan_files env files sc)"

text \<open>The outer loop \<^verbatim>\<open>for (let files of globMatches)\<close> (lines 405-450).\<close>

fun scan_matches :: "environment \<Rightarrow> string list list \<Rightarrow> scan \<Rightarrow> scan" where
  "scan_matches env [] sc = sc"
| "scan_matches env (files # globMatches) sc =
     scan_matches env globMatches
       (if \<not> foundTemplate sc \<or> \<not> foundExample sc then scan_files env files sc else sc)"

text \<open>
  The sample context of a compiled file (lines 420-424, 438-443): \<^verbatim>\<open>require()\<close> of the
  \<^verbatim>\<open>.json\<close> file beside it, or a new \<^verbatim>\<open>{}\<close> when that throws.
\<close>

definition require_sample :: "environment \<Rightarrow> string \<Rightarrow> string \<Rightarrow> builder \<Rightarrow> nat \<times> builder" where
  "require_sample env file name s =
     (let p = path_join env (path_dirname env file)
                (path_basename_ext env name ''.twig'' @ ''.json'')
      in case modules s p of
           Some a \<Rightarrow> (a, s)
         | None \<Rightarrow>
             (case require env p of
                Some v \<Rightarrow>
                  (let (a, h) = alloc v (heap s)
                   in (a, s\<lparr>heap := h, modules := (modules s)(p \<mapsto> a)\<rparr>))
              | None \<Rightarrow> (let (a, h) = alloc (JObj []) (heap s) in (a, s\<lparr>heap := h\<rparr>))))"

fun run_task :: "environment \<Rightarrow> compile_task \<Rightarrow> template \<times> builder \<Rightarrow> error + template \<times> builder" where
  "run_task env (Compile_template i file) (t, s) =
     (case twigAsync env i (Path file) s of
        Inl e \<Rightarrow> Inl e
      | Inr (c, s1) \<Rightarrow>
          (let (a, s2) = require_sample env (template_file t) (template_name t) s1
           in Inr (t\<lparr>template_context := a\<rparr>, s2)))"
| "run_task env (Compile_example i file) (t, s) =
     (case twigAsync env i (Path file) s of
        Inl e \<Rightarrow> Inl e
      | Inr (c, s1) \<Rightarrow>
          (let (a, s2) = require_sample env (template_exampleFile t) i s1
           in Inr (t\<lparr>template_exampleContext := a\<rparr>, s2)))"
| "run_task env (Compile_data i d) (t, s) =
     (case twigAsync env i (Data d) s of
        Inl e \<Rightarrow> Inl e
      | Inr (c, s1) \<Rightarrow> Inr (t, s1))"

text \<open>\<^verbatim>\<open>Promise.all(compileTemplates)\<close>: one failure fails the whole.\<close>

fun run_tasks :: "environment \<Rightarrow> compile_task list \<Rightarrow> template \<times> builder \<Rightarrow> error + template \<times> builder" where
  "run_tasks env [] ts = Inr ts"
| "run_tasks env (k # ks) ts =
     (case run_task env k ts of Inl e \<Rightarrow> Inl e | Inr ts' \<Rightarrow> run_tasks env ks ts')"

text \<open>
  The callback given the search results (lines 401-479): the scan, the fallbacks for what
  was not found, the compilations, and \<^verbatim>\<open>saveTemplate\<close>.
\<close>

definition found_templates :: "environment \<Rightarrow> options \<Rightarrow> string list list \<Rightarrow> template \<Rightarrow> builder \<Rightarrow> error + builder" where
  "found_templates env opts globMatches t s =
     (let sc = scan_matches env globMatches
                 \<lparr>foundTemplate = False, foundExample = False, scanned = t, compileTemplates = []\<rparr>;
          t1 = scanned sc;
          marked_markup = template_markup t1 @ '' NOT FOUND!'';
          (t2, s2, tasks) =
            (if \<not> foundTemplate sc \<and> \<not> foundExample sc then
               (t1\<lparr>template_markup := marked_markup\<rparr>,
                (if \<not> verbose opts
                 then log (''WARNING: In section '' @ template_reference t1 @ '', '' @ marked_markup) s
                 else s),
                compileTemplates sc @ [Compile_data (template_name t1) marked_markup])
             else if \<not> foundTemplate sc then
               (t1, s,
                compileTemplates sc
                  @ [Compile_data (template_name t1) ''{# Cannot be an empty string. #}''])
             else (t1, s, compileTemplates sc));
          s3 = (if verbose opts
                then log ('' - '' @ template_reference t2 @ '': '' @ template_markup t2) s2
                else s2)
      in case run_tasks env tasks (t2, s3) of
           Inl e \<Rightarrow> Inl e
         | Inr (t3, s4) \<Rightarrow> Inr (saveTemplate t3 s4))"

text \<open>The file-reference branch (lines 389-480).\<close>

definition resolve_file :: "environment \<Rightarrow> options \<Rightarrow> template \<Rightarrow> builder \<Rightarrow> error + builder" where
  "resolve_file env opts t0 s =
     (let name = path_basename env (template_markup t0);
          t = t0\<lparr>template_file := template_markup t0,
                template_name := name,
                template_exampleName := Some (''kss-example-'' @ name)\<rparr>
      in case Promise_all (settle_order env (template_reference t))
                (map (glob env) (findTemplates opts t)) of
           None \<Rightarrow> Inl Unsettled
         | Some globMatches \<Rightarrow> found_templates env opts globMatches t s)"

text \<open>The body of \<^verbatim>\<open>sections.forEach\<close> from line 363 on.\<close>

definition resolve_section :: "environment \<Rightarrow> options \<Rightarrow> kss_section \<Rightarrow> builder \<Rightarrow> error + builder" where
  "resolve_section env opts sec s =
     (if section_markup sec = [] then Inr s
      else
        (let (t, s1) = new_template sec s
         in if \<not> is_file_reference (template_markup t) then
              (case compileInline env t
                      (if verbose opts
                       then log ('' - '' @ template_reference t @ '': inline markup'') s1
                       else s1) of
                 Inl e \<Rightarrow> Inl e
               | Inr s2 \<Rightarrow> Inr (saveTemplate t s2))
            else resolve_file env opts t s1))"

fun resolve_sections :: "environment \<Rightarrow> options \<Rightarrow> kss_section list \<Rightarrow> builder \<Rightarrow> error + builder" where
  "resolve_sections env opts [] s = Inr s"
| "resolve_sections env opts (sec # secs) s =
     (case resolve_section env opts sec s of
        Inl e \<Rightarrow> Inl e
      | Inr s' \<Rightarrow> resolve_sections env opts secs s')"

section \<open>Rendering the sections of a page (lines 541-599)\<close>

text \<open>\<^verbatim>\<open>JSON.parse(JSON.stringify(context))\<close>: the copy is a new object.\<close>

definition copy_context :: "nat \<Rightarrow> builder \<Rightarrow> error + nat \<times> builder" where
  "copy_context a s =
     (case deref (heap s) a of
        Inl e \<Rightarrow> Inl e
      | Inr v \<Rightarrow> (let (d, h) = alloc (JSON_copy v) (heap s) in Inr (d, s\<lparr>heap := h\<rparr>)))"

definition read_modifier_class :: "nat \<Rightarrow> builder \<Rightarrow> error + jsval" where
  "read_modifier_class d s =
     (case deref (heap s) d of Inl e \<Rightarrow> Inl e | Inr v \<Rightarrow> get_modifier_class v)"

definition write_modifier_class :: "nat \<Rightarrow> jsval \<Rightarrow> builder \<Rightarrow> error + builder" where
  "write_modifier_class d m s =
     (case deref (heap s) d of
        Inl e \<Rightarrow> Inl e
      | Inr v \<Rightarrow>
          (case set_modifier_class m v of
             Inl e \<Rightarrow> Inl e
           | Inr v' \<Rightarrow> Inr (s\<lparr>heap := store d v' (heap s)\<rparr>)))"

text \<open>
  Lines 551-559 and again 579-584: copy the stored context, default its
  \<^verbatim>\<open>modifier_class\<close> to the empty string, and append the placeholder if the section has
  modifiers and the option is set.
\<close>

definition placeholder_data :: "options \<Rightarrow> kss_section \<Rightarrow> nat \<Rightarrow> builder \<Rightarrow> error + nat \<times> builder" where
  "placeholder_data opts sec a s =
     (case copy_context a s of
        Inl e \<Rightarrow> Inl e
      | Inr (data, s1) \<Rightarrow>
          (case read_modifier_class data s1 of
             Inl e \<Rightarrow> Inl e
           | Inr m \<Rightarrow>
               (case write_modifier_class data (if truthy m then m else JStr []) s1 of
                  Inl e \<Rightarrow> Inl e
                | Inr s2 \<Rightarrow>
                    (if section_modifiers sec \<noteq> [] \<and> placeholder opts \<noteq> [] then
                       (case read_modifier_class data s2 of
                          Inl e \<Rightarrow> Inl e
                        | Inr m' \<Rightarrow>
                            (case write_modifier_class data
                                    (JStr (to_string m' @ (if truthy m' then '' '' else [])
                                             @ placeholder opts)) s2 of
                               Inl e \<Rightarrow> Inl e
                             | Inr s3 \<Rightarrow> Inr (data, s3)))
                     else Inr (data, s2)))))"

text \<open>
  \<^verbatim>\<open>template.render(this.safeMarkup(data))\<close>: a \<^verbatim>\<open>null\<close> template has no
  \<^verbatim>\<open>render\<close>; \<^verbatim>\<open>safeMarkup\<close> works on the object \<^verbatim>\<open>data\<close> itself.
\<close>

definition render_data :: "environment \<Rightarrow> twig_template option \<Rightarrow> nat \<Rightarrow> builder \<Rightarrow> error + string \<times> builder" where
  "render_data env template data s =
     (case template of
        None \<Rightarrow> Inl TypeError
      | Some t \<Rightarrow>
          (case deref (heap s) data of
             Inl e \<Rightarrow> Inl e
           | Inr v \<Rightarrow>
               (case render env t (safeMarkup v) of
                  None \<Rightarrow> Inl (TwigError (twig_id t))
                | Some out \<Rightarrow> Inr (out, s\<lparr>heap := store data (safeMarkup_effect v) (heap s)\<rparr>))))"

text \<open>
  The body of \<^verbatim>\<open>section.modifiers.forEach\<close>: the copy and its \<^verbatim>\<open>modifier_class\<close>
  (lines 588-589), then the rendering (line 590).
\<close>

definition modifier_data :: "nat \<Rightarrow> modifier \<Rightarrow> builder \<Rightarrow> error + nat \<times> builder" where
  "modifier_data templateContext modifier s =
     (case copy_context templateContext s of
        Inl e \<Rightarrow> Inl e
      | Inr (data, s1) \<Rightarrow>
          (case read_modifier_class data s1 of
             Inl e \<Rightarrow> Inl e
           | Inr m \<Rightarrow>
               (case write_modifier_class data
                       (JStr ((if truthy m then to_string m @ '' '' else [])
                                @ modifier_className modifier)) s1 of
                  Inl e \<Rightarrow> Inl e
                | Inr s2 \<Rightarrow> Inr (data, s2))))"

definition render_modifier :: "environment \<Rightarrow> twig_template option \<Rightarrow> nat \<Rightarrow> modifier \<Rightarrow> builder \<Rightarrow> error + rendered_modifier \<times> builder" where
  "render_modifier env template templateContext modifier s =
     (case modifier_data templateContext modifier s of
        Inl e \<Rightarrow> Inl e
      | Inr (data, s1) \<Rightarrow>
          (case render_data env template data s1 of
             Inl e \<Rightarrow> Inl e
           | Inr (out, s2) \<Rightarrow>
               Inr (\<lparr>rendered_className = modifier_className modifier,
                     rendered_modifier_markup = Some out\<rparr>, s2)))"

fun render_modifiers :: "environment \<Rightarrow> twig_template option \<Rightarrow> nat \<Rightarrow> modifier list \<Rightarrow> builder \<Rightarrow> error + rendered_modifier list \<times> builder" where
  "render_modifiers env template templateContext [] s = Inr ([], s)"
| "render_modifiers env template templateContext (m # ms) s =
     (case render_modifier env template templateContext m s of
        Inl e \<Rightarrow> Inl e
      | Inr (r, s1) \<Rightarrow>
          (case render_modifiers env template templateContext ms s1 of
             Inl e \<Rightarrow> Inl e
           | Inr (rs, s2) \<Rightarrow> Inr (r # rs, s2)))"

text \<open>
  \<^verbatim>\<open>templateInfo.exampleRef\<close> where \<^verbatim>\<open>if (templateInfo.exampleRef)\<close> holds: neither
  \<^verbatim>\<open>false\<close> nor the empty string.
\<close>

definition exampleRef :: "templateInfo \<Rightarrow> string option" where
  "exampleRef templateInfo =
     (case info_exampleRef templateInfo of
        None \<Rightarrow> None
      | Some r \<Rightarrow> (if r \<noteq> [] then Some r else None))"

text \<open>The section as \<^verbatim>\<open>section.toJSON()\<close> gives it, nothing rendered yet.\<close>

definition toJSON :: "kss_section \<Rightarrow> rendered_section" where
  "toJSON sec =
     \<lparr>rendered_reference = section_reference sec,
      rendered_markup = section_markup sec,
      rendered_example = None,
      rendered_modifiers =
        map (\<lambda>m. \<lparr>rendered_className = modifier_className m, rendered_modifier_markup = None\<rparr>)
          (section_modifiers sec)\<rparr>"

text \<open>The callback of \<^verbatim>\<open>context.sections.map\<close> (lines 543-598).\<close>

definition render_section :: "environment \<Rightarrow> options \<Rightarrow> kss_section \<Rightarrow> builder \<Rightarrow> error + rendered_section \<times> builder" where
  "render_section env opts sec s =
     (if section_markup sec = [] then Inr (toJSON sec, s)
      else
        (case userTemplates s (section_reference sec) of
           None \<Rightarrow> Inl TypeError
         | Some templateInfo \<Rightarrow>
        (case twigAsync_ref (info_ref templateInfo) s of
           Inl e \<Rightarrow> Inl e
         | Inr template \<Rightarrow>
        (case placeholder_data opts sec (info_context templateInfo) s of
           Inl e \<Rightarrow> Inl e
         | Inr (data, s1) \<Rightarrow>
        (case render_data env template data s1 of
           Inl e \<Rightarrow> Inl e
         | Inr (markup, s2) \<Rightarrow>
        (case (case exampleRef templateInfo of
                 Some r \<Rightarrow>
                   (case twigAsync_ref r s2 of
                      Inl e \<Rightarrow> Inl e
                    | Inr t \<Rightarrow> Inr (t, info_exampleContext templateInfo))
               | None \<Rightarrow> Inr (template, info_context templateInfo)) of
           Inl e \<Rightarrow> Inl e
         | Inr (exampleTemplate, templateContext) \<Rightarrow>
        (case (if exampleRef templateInfo \<noteq> None then
                 (case placeholder_data opts sec templateContext s2 of
                    Inl e \<Rightarrow> Inl e
                  | Inr (data', s3) \<Rightarrow> render_data env exampleTemplate data' s3)
               else Inr (markup, s2)) of
           Inl e \<Rightarrow> Inl e
         | Inr (example, s4) \<Rightarrow>
        (case render_modifiers env exampleTemplate templateContext (section_modifiers sec) s4 of
           Inl e \<Rightarrow> Inl e
         | Inr (modifiers, s5) \<Rightarrow>
             Inr (\<lparr>rendered_reference = section_reference sec,
                   rendered_markup = markup,
                   rendered_example = Some example,
                   rendered_modifiers = modifiers\<rparr>, s5)))))))))"

fun render_sections :: "environment \<Rightarrow> options \<Rightarrow> kss_section list \<Rightarrow> builder \<Rightarrow> error + rendered_section list \<times> builder" where
  "render_sections env opts [] s = Inr ([], s)"
| "render_sections env opts (sec # secs) s =
     (case render_section env opts sec s of
        Inl e \<Rightarrow> Inl e
      | Inr (r, s1) \<Rightarrow>
          (case render_sections env opts secs s1 of
             Inl e \<Rightarrow> Inl e
           | Inr (rs, s2) \<Rightarrow> Inr (r # rs, s2)))"

section \<open>Writing a page (lines 526-540, 600-688)\<close>

definition templateName :: "page_kind \<Rightarrow> string" where
  "templateName k = (case k of Index \<Rightarrow> ''index'' | Section \<Rightarrow> ''section'' | Item \<Rightarrow> ''item'')"

text \<open>\<^verbatim>\<open>this.templates[templateName]\<close>.\<close>

definition templates :: "builder \<Rightarrow> page_kind \<Rightarrow> twig_template option" where
  "templates s k =
     (case k of Index \<Rightarrow> templates_index s
              | Section \<Rightarrow> templates_section s
              | Item \<Rightarrow> templates_item s)"

text \<open>
  \<^verbatim>\<open>this.styleGuide.sections(reference)\<close> with an exact reference: the section, when
  there is one. The method is \<^verbatim>\<open>KssStyleGuide\<close>'s; here it is the first section of the
  list with that reference.
\<close>

definition section_at :: "styleGuide \<Rightarrow> string \<Rightarrow> kss_section option" where
  "section_at sg r = find (\<lambda>sec. section_reference sec = r) (sections sg)"

definition styles :: "options \<Rightarrow> string" where
  "styles opts =
     concat (map (\<lambda>u. ''<link rel='' @ [CHR 0x22] @ ''stylesheet'' @ [CHR 0x22] @ '' href=''
                         @ [CHR 0x22] @ u @ [CHR 0x22] @ ''>'' @ [CHR 0x0A]) (css opts))"

definition scripts :: "options \<Rightarrow> string" where
  "scripts opts =
     concat (map (\<lambda>u. ''<script src='' @ [CHR 0x22] @ u @ [CHR 0x22] @ ''></script>''
                         @ [CHR 0x0A]) (js opts))"

text \<open>
  The homepage text (lines 654-677): the first source with a match gives the file that
  is read; without one a line is logged and the text is empty.
\<close>

fun first_match :: "string list list \<Rightarrow> string option" where
  "first_match [] = None"
| "first_match (files # globMatches) =
     (case files of [] \<Rightarrow> first_match globMatches | f # fs \<Rightarrow> Some f)"

definition getHomepageText :: "environment \<Rightarrow> options \<Rightarrow> builder \<Rightarrow> error + string \<times> builder" where
  "getHomepageText env opts s =
     (case first_match (map (\<lambda>src. glob env (src @ ''/**/'' @ homepage opts)) (source opts)) of
        Some f \<Rightarrow>
          (case readFile env f of
             None \<Rightarrow> Inl (Unable_to_find f)
           | Some text \<Rightarrow> Inr ((if text \<noteq> [] then marked env text else []), s))
      | None \<Rightarrow>
          Inr ([],
               log ((if verbose opts then ''   ...no homepage content found in ''
                     else ''WARNING: no homepage content found in '') @ homepage opts @ ''.'') s))"

definition buildPage :: "environment \<Rightarrow> options \<Rightarrow> styleGuide \<Rightarrow> page_kind \<Rightarrow> string option \<Rightarrow> kss_section list \<Rightarrow> builder \<Rightarrow> error + builder" where
  "buildPage env opts sg kind pageReference secs s =
     (case render_sections env opts secs s of
        Inl e \<Rightarrow> Inl e
      | Inr (rendered, s1) \<Rightarrow>
     (case (case pageReference of
              None \<Rightarrow> Inr ([], if verbose opts then log '' - homepage'' s1 else s1)
            | Some r \<Rightarrow>
                (if r = [] then Inr ([], if verbose opts then log '' - homepage'' s1 else s1)
                 else
                   (case section_at sg r of
                      None \<Rightarrow> Inl TypeError
                    | Some rootSection \<Rightarrow>
                        Inr (section_referenceURI rootSection,
                             if verbose opts
                             then log ('' - '' @ templateName kind @ '' '' @ r @ '' [''
                                         @ (if section_header rootSection \<noteq> []
                                            then section_header rootSection else ''Unnamed'')
                                         @ '']'') s1
                             else s1)))) of
        Inl e \<Rightarrow> Inl e
      | Inr (uri, s2) \<Rightarrow>
     (let fileName = templateName kind @ (if uri \<noteq> [] then ''-'' @ uri else []) @ ''.html''
      in
     (case (if kind \<noteq> Index then Inr (None, s2)
            else (case getHomepageText env opts s2 of
                    Inl e \<Rightarrow> Inl e
                  | Inr (text, s3) \<Rightarrow> Inr (Some text, s3))) of
        Inl e \<Rightarrow> Inl e
      | Inr (home, s4) \<Rightarrow>
     (case templates s4 kind of
        None \<Rightarrow> Inl TypeError
      | Some t \<Rightarrow>
     (case render_page env t
             \<lparr>page_template = kind,
              page_sections = rendered,
              page_styles = styles opts,
              page_scripts = scripts opts,
              page_menu = createMenu env pageReference,
              page_homepage = home\<rparr> of
        None \<Rightarrow> Inl (TwigError (twig_id t))
      | Some body \<Rightarrow>
          (let file = path_join env (destination opts) fileName
           in if writeFile env file body
              then Inr (s4\<lparr>written := written s4 @ [(file, body)]\<rparr>)
              else Inl (WriteError file))))))))"

section \<open>The build (lines 247-513)\<close>

text \<open>
  The root of a reference, \<^verbatim>\<open>reference.split(/(?:\.|\ \-\ )/)[0]\<close>: what comes before
  the first \<^verbatim>\<open>.\<close> or \<^verbatim>\<open> - \<close>.
\<close>

fun currentRoot :: "string \<Rightarrow> string" where
  "currentRoot [] = []"
| "currentRoot (c # cs) =
     (if c = CHR ''.'' \<or> take 3 (c # cs) = '' - '' then [] else c # currentRoot cs)"

fun sectionRoots :: "kss_section list \<Rightarrow> string list \<Rightarrow> string list" where
  "sectionRoots [] roots = roots"
| "sectionRoots (sec # secs) roots =
     sectionRoots secs
       (if currentRoot (section_reference sec) \<in> set roots then roots
        else roots @ [currentRoot (section_reference sec)])"

text \<open>
  Modelled from the spec: \<^verbatim>\<open>this.styleGuide.sections(rootReference + '.*')\<close> is a method
  of \<^verbatim>\<open>KssStyleGuide\<close>, which is not in this file. The spec (4.4) has it return every
  section whose reference starts with that root reference followed by a path delimiter
  or is exactly equal to it.
\<close>

definition sections_under :: "styleGuide \<Rightarrow> string \<Rightarrow> kss_section list" where
  "sections_under sg root =
     filter (\<lambda>sec. section_reference sec = root
                  \<or> take (length root + 1) (section_reference sec) = root @ ''.''
                  \<or> take (length root + 3) (section_reference sec) = root @ '' - '')
       (sections sg)"

fun build_section_pages :: "environment \<Rightarrow> options \<Rightarrow> styleGuide \<Rightarrow> string list \<Rightarrow> builder \<Rightarrow> error + builder" where
  "build_section_pages env opts sg [] s = Inr s"
| "build_section_pages env opts sg (rootReference # roots) s =
     (case buildPage env opts sg Section (Some rootReference) (sections_under sg rootReference) s of
        Inl e \<Rightarrow> Inl e
      | Inr s' \<Rightarrow> build_section_pages env opts sg roots s')"

fun build_item_pages :: "environment \<Rightarrow> options \<Rightarrow> styleGuide \<Rightarrow> kss_section list \<Rightarrow> builder \<Rightarrow> error + builder" where
  "build_item_pages env opts sg [] s = Inr s"
| "build_item_pages env opts sg (sec # secs) s =
     (case buildPage env opts sg Item (Some (section_reference sec)) [sec] s of
        Inl e \<Rightarrow> Inl e
      | Inr s' \<Rightarrow> build_item_pages env opts sg secs s')"

text \<open>The pages, once every build task is done (lines 484-509).\<close>

definition build_pages :: "environment \<Rightarrow> options \<Rightarrow> styleGuide \<Rightarrow> builder \<Rightarrow> error + builder" where
  "build_pages env opts sg s =
     (case buildPage env opts sg Index None []
             (if verbose opts then log ''...Building style guide pages:'' s else s) of
        Inl e \<Rightarrow> Inl e
      | Inr s1 \<Rightarrow>
          (case build_section_pages env opts sg (sectionRoots (sections sg) []) s1 of
             Inl e \<Rightarrow> Inl e
           | Inr s2 \<Rightarrow>
               (if templates_item s2 \<noteq> None
                then build_item_pages env opts sg (sections sg) s2
                else Inr s2)))"

text \<open>
  \<^verbatim>\<open>build(styleGuide)\<close>. The tasks of \<^verbatim>\<open>buildTasks\<close> are run one after the other, the
  page templates first; a failure of any of them fails the build.
\<close>

definition build :: "environment \<Rightarrow> options \<Rightarrow> styleGuide \<Rightarrow> builder \<Rightarrow> error + builder" where
  "build env opts sg s =
     (let s1 = registryReset (s\<lparr>userTemplates := Map.empty\<rparr>);
          s2 = (case meta_files sg of
                  None \<Rightarrow> s1
                | Some files \<Rightarrow>
                    (if verbose opts
                     then log (join_with [CHR 0x0A] (map (\<lambda>file. '' - '' @ file) files)) s1
                     else s1));
          s3 = (if verbose opts then log ''...Determining section markup:'' s2 else s2)
      in case loadTask env opts s3 of
           Inl e \<Rightarrow> Inl e
         | Inr s4 \<Rightarrow>
             (case resolve_sections env opts (sections sg) s4 of
                Inl e \<Rightarrow> Inl e
              | Inr s5 \<Rightarrow> build_pages env opts sg s5))"

section \<open>What a rendering computes\<close>

text \<open>
  The functions of this section do not belong to the builder: they give, without the
  heap, the value an object of the heap holds after the steps above, and so what the
  engine is given. The lemmas below relate them to the operations on the heap.

  \<open>placeholder_value\<close> is the copy \<^verbatim>\<open>data\<close> after lines 556-559, \<open>modifier_value\<close> the
  copy after line 589, \<open>rendering\<close> is \<^verbatim>\<open>template.render(this.safeMarkup(data))\<close>.
\<close>

definition placeholder_value :: "options \<Rightarrow> kss_section \<Rightarrow> jsval \<Rightarrow> error + jsval" where
  "placeholder_value opts sec d =
     (case get_modifier_class d of
        Inl e \<Rightarrow> Inl e
      | Inr m \<Rightarrow>
          (case set_modifier_class (if truthy m then m else JStr []) d of
             Inl e \<Rightarrow> Inl e
           | Inr d1 \<Rightarrow>
               (if section_modifiers sec \<noteq> [] \<and> placeholder opts \<noteq> [] then
                  (case get_modifier_class d1 of
                     Inl e \<Rightarrow> Inl e
                   | Inr m' \<Rightarrow>
                       set_modifier_class
                         (JStr (to_string m' @ (if truthy m' then '' '' else []) @ placeholder opts)) d1)
                else Inr d1)))"

definition modifier_value :: "modifier \<Rightarrow> jsval \<Rightarrow> error + jsval" where
  "modifier_value modifier d =
     (case get_modifier_class d of
        Inl e \<Rightarrow> Inl e
      | Inr m \<Rightarrow>
          set_modifier_class
            (JStr ((if truthy m then to_string m @ '' '' else []) @ modifier_className modifier)) d)"

definition rendering :: "environment \<Rightarrow> twig_template option \<Rightarrow> jsval \<Rightarrow> error + string" where
  "rendering env template d =
     (case template of
        None \<Rightarrow> Inl TypeError
      | Some t \<Rightarrow>
          (case render env t (safeMarkup d) of
             None \<Rightarrow> Inl (TwigError (twig_id t))
           | Some out \<Rightarrow> Inr out))"

text \<open>
  The renderings of the modifiers, and of a whole section, with the objects they leave
  on the heap. \<open>look\<close> reads a stored context.
\<close>

fun modifiers_value :: "environment \<Rightarrow> twig_template option \<Rightarrow> error + jsval \<Rightarrow> modifier list \<Rightarrow> error + rendered_modifier list \<times> jsval list" where
  "modifiers_value env template cv [] = Inr ([], [])"
| "modifiers_value env template cv (m # ms) =
     (case cv of
        Inl e \<Rightarrow> Inl e
      | Inr v \<Rightarrow>
          (case modifier_value m (JSON_copy v) of
             Inl e \<Rightarrow> Inl e
           | Inr d \<Rightarrow>
               (case rendering env template d of
                  Inl e \<Rightarrow> Inl e
                | Inr out \<Rightarrow>
                    (case modifiers_value env template cv ms of
                       Inl e \<Rightarrow> Inl e
                     | Inr (rs, cells) \<Rightarrow>
                         Inr (\<lparr>rendered_className = modifier_className m,
                               rendered_modifier_markup = Some out\<rparr> # rs,
                              safeMarkup_effect d # cells)))))"

definition section_value :: "environment \<Rightarrow> options \<Rightarrow> kss_section \<Rightarrow> (string \<rightharpoonup> templateInfo) \<Rightarrow> (string \<rightharpoonup> twig_template) \<Rightarrow> (nat \<Rightarrow> error + jsval) \<Rightarrow> error + rendered_section \<times> jsval list" where
  "section_value env opts sec infos reg look =
     (if section_markup sec = [] then Inr (toJSON sec, [])
      else
        (case infos (section_reference sec) of
           None \<Rightarrow> Inl TypeError
         | Some info \<Rightarrow>
        (if info_ref info = [] then Inl (Unable_to_find ''undefined'')
         else
        (case look (info_context info) of
           Inl e \<Rightarrow> Inl e
         | Inr v \<Rightarrow>
        (case placeholder_value opts sec (JSON_copy v) of
           Inl e \<Rightarrow> Inl e
         | Inr d \<Rightarrow>
        (case rendering env (reg (info_ref info)) d of
           Inl e \<Rightarrow> Inl e
         | Inr markup \<Rightarrow>
        (case exampleRef info of
           None \<Rightarrow>
             (case modifiers_value env (reg (info_ref info)) (look (info_context info))
                     (section_modifiers sec) of
                Inl e \<Rightarrow> Inl e
              | Inr (modifiers, cells) \<Rightarrow>
                  Inr (\<lparr>rendered_reference = section_reference sec,
                        rendered_markup = markup,
                        rendered_example = Some markup,
                        rendered_modifiers = modifiers\<rparr>,
                       safeMarkup_effect d # cells))
         | Some r \<Rightarrow>
             (case look (info_exampleContext info) of
                Inl e \<Rightarrow> Inl e
              | Inr v' \<Rightarrow>
             (case placeholder_value opts sec (JSON_copy v') of
                Inl e \<Rightarrow> Inl e
              | Inr d' \<Rightarrow>
             (case rendering env (reg r) d' of
                Inl e \<Rightarrow> Inl e
              | Inr example \<Rightarrow>
             (case modifiers_value env (reg r) (look (info_exampleContext info))
                     (section_modifiers sec) of
                Inl e \<Rightarrow> Inl e
              | Inr (modifiers, cells) \<Rightarrow>
                  Inr (\<lparr>rendered_reference = section_reference sec,
                        rendered_markup = markup,
                        rendered_example = Some example,
                        rendered_modifiers = modifiers\<rparr>,
                       safeMarkup_effect d # safeMarkup_effect d' # cells))))))))))))"

section \<open>What a resolution computes\<close>

text \<open>
  Again not part of the builder, but names for the statements below: the page templates
  of a builder and all that a build compiles; the first file of a list with a given base
  name; what the two searches of one source return, the main one first; the identity and
  the source of a compilation; the \<^verbatim>\<open>template\<close> object of a file reference after lines
  390-393.
\<close>

definition page_templates :: "builder \<Rightarrow> twig_template option \<times> twig_template option \<times> twig_template option" where
  "page_templates s = (templates_index s, templates_section s, templates_item s)"

definition compiled :: "builder \<Rightarrow> (twig_template option \<times> twig_template option \<times> twig_template option) \<times> (string \<rightharpoonup> templateInfo) \<times> (string \<rightharpoonup> twig_template)" where
  "compiled s = (page_templates s, userTemplates s, registry s)"

definition first_named :: "environment \<Rightarrow> string \<Rightarrow> string list \<Rightarrow> string option" where
  "first_named env name files = find (\<lambda>f. path_basename env f = name) files"

definition searched :: "environment \<Rightarrow> string \<Rightarrow> string \<Rightarrow> string list" where
  "searched env markup src =
     glob env (src @ ''/**/'' @ markup)
       @ glob env (src @ ''/**/kss-example-'' @ path_basename env markup)"

fun task_id :: "compile_task \<Rightarrow> string" where
  "task_id (Compile_template i f) = i"
| "task_id (Compile_example i f) = i"
| "task_id (Compile_data i d) = i"

fun task_source :: "compile_task \<Rightarrow> twig_source" where
  "task_source (Compile_template i f) = Path f"
| "task_source (Compile_example i f) = Path f"
| "task_source (Compile_data i d) = Data d"

definition file_template :: "environment \<Rightarrow> kss_section \<Rightarrow> builder \<Rightarrow> template" where
  "file_template env sec s =
     \<lparr>template_name = path_basename env (section_markup sec),
      template_reference = section_reference sec,
      template_file = section_markup sec,
      template_markup = section_markup sec,
      template_context = length (heap s),
      template_exampleName = Some (''kss-example-'' @ path_basename env (section_markup sec)),
      template_exampleFile = [],
      template_exampleContext = Suc (length (heap s))\<rparr>"

section \<open>The words of the spec\<close>

text \<open>
  The spec (4.3) calls a markup a file reference when it is "a single line with no
  embedded line breaks, ending in the template file extension".
\<close>

definition single_line_twig_name :: "string \<Rightarrow> bool" where
  "single_line_twig_name m =
     (CHR 0x0A \<notin> set m \<and> 5 \<le> length m \<and> drop (length m - 5) m = ''.twig'')"


section \<open>A small style guide\<close>

text \<open>
  Concrete inputs, for the examples among the theorems: POSIX \<^verbatim>\<open>path.basename\<close>, an
  engine whose templates render to their identity followed by the \<^verbatim>\<open>modifier_class\<close>
  they are given, and three sources of which the second and the third hold
  \<^verbatim>\<open>button.twig\<close> and the first holds its example.
\<close>

definition posix_basename :: "string \<Rightarrow> string" where
  "posix_basename p =
     rev (takeWhile (\<lambda>c. c \<noteq> CHR ''/'') (dropWhile (\<lambda>c. c = CHR ''/'') (rev p)))"

definition example_env :: environment where
  "example_env =
     \<lparr>path_basename = posix_basename,
      path_basename_ext = (\<lambda>p e. posix_basename p),
      path_dirname = (\<lambda>p. p),
      path_join = (\<lambda>a b. a @ ''/'' @ b),
      path_resolve = (\<lambda>a b. a @ ''/'' @ b),
      glob = (\<lambda>p. if p = ''b/**/button.twig'' then [''b/x/button.twig'']
                   else if p = ''c/**/button.twig'' then [''c/button.twig'']
                   else if p = ''a/**/kss-example-button.twig''
                        then [''a/kss-example-button.twig'']
                   else []),
      settle_order = (\<lambda>r. [5, 4, 3, 2, 1, 0]),
      is_file = (\<lambda>p. p \<noteq> ''builder/section.twig''),
      twig_compiles = (\<lambda>reg i src. True),
      require = (\<lambda>p. None),
      render = (\<lambda>t v. Some (twig_id t @ '':''
                               @ (case get_modifier_class v of
                                    Inl e \<Rightarrow> [] | Inr m \<Rightarrow> to_string m))),
      render_page = (\<lambda>t c. Some (twig_id t)),
      createMenu = (\<lambda>r. []),
      readFile = (\<lambda>p. None),
      marked = (\<lambda>t. t),
      writeFile = (\<lambda>p b. True)\<rparr>"

definition example_options :: options where
  "example_options =
     \<lparr>source = [''a'', ''b'', ''c''], destination = ''out'', builder_dir = ''builder'',
      verbose = False, placeholder = ''[modifier class]'', homepage = ''homepage.md'',
      css = [], js = []\<rparr>"

definition new_builder :: builder where
  "new_builder =
     \<lparr>templates_index = None, templates_section = None, templates_item = None,
      userTemplates = Map.empty, registry = Map.empty, heap = [], modules = Map.empty,
      log_lines = [], written = []\<rparr>"

definition disabled :: modifier where
  "disabled = \<lparr>modifier_className = ''disabled''\<rparr>"

definition inline_section :: kss_section where
  "inline_section =
     \<lparr>section_reference = ''1'', section_referenceURI = ''1'', section_header = ''Button'',
      section_markup = ''<button>'', section_modifiers = [disabled]\<rparr>"

definition button_section :: kss_section where
  "button_section =
     \<lparr>section_reference = ''1.1'', section_referenceURI = ''1-1'', section_header = ''Button'',
      section_markup = ''button.twig'', section_modifiers = [disabled]\<rparr>"

definition missing_section :: kss_section where
  "missing_section =
     \<lparr>section_reference = ''1.2'', section_referenceURI = ''1-2'', section_header = ''Missing'',
      section_markup = ''missing.twig'', section_modifiers = []\<rparr>"

text \<open>
  A builder after the resolution of two sections: section 1 with an inline template and
  the stored context \<^verbatim>\<open>{"text": "Hi"}\<close>, section 1.1 with a template, an example and the
  example context \<^verbatim>\<open>{"modifier_class": "btn"}\<close>.
\<close>

definition resolved_builder :: builder where
  "resolved_builder =
     new_builder
       \<lparr>userTemplates :=
          [''1'' \<mapsto> \<lparr>info_ref = ''1'', info_context = 0, info_exampleRef = None,
                     info_exampleContext = 1\<rparr>,
           ''1.1'' \<mapsto> \<lparr>info_ref = ''button.twig'', info_context = 0,
                       info_exampleRef = Some ''kss-example-button.twig'',
                       info_exampleContext = 2\<rparr>],
        registry :=
          [''1'' \<mapsto> Template ''1'' (Data ''<button>''),
           ''button.twig'' \<mapsto> Template ''button.twig'' (Path ''b/x/button.twig''),
           ''kss-example-button.twig'' \<mapsto>
             Template ''kss-example-button.twig'' (Path ''a/kss-example-button.twig'')],
        heap := [JObj [(''text'', JStr ''Hi'')], JObj [],
                 JObj [(''modifier_class'', JStr ''btn'')]]\<rparr>"

text \<open>What rendering the two sections gives from there.\<close>

definition inline_rendered :: rendered_section where
  "inline_rendered =
     \<lparr>rendered_reference = ''1'', rendered_markup = ''1:[modifier class]'',
      rendered_example = Some ''1:[modifier class]'',
      rendered_modifiers =
        [\<lparr>rendered_className = ''disabled'', rendered_modifier_markup = Some ''1:disabled''\<rparr>]\<rparr>"

definition inline_rendered_builder :: builder where
  "inline_rendered_builder =
     resolved_builder\<lparr>heap := heap resolved_builder
       @ [JObj [(''text'', JMarkup (JStr ''Hi'')),
                (''modifier_class'', JMarkup (JStr ''[modifier class]''))],
          JObj [(''text'', JMarkup (JStr ''Hi'')),
                (''modifier_class'', JMarkup (JStr ''disabled''))]]\<rparr>"

definition button_rendered :: rendered_section where
  "button_rendered =
     \<lparr>rendered_reference = ''1.1'', rendered_markup = ''button.twig:[modifier class]'',
      rendered_example = Some ''kss-example-button.twig:btn [modifier class]'',
      rendered_modifiers =
        [\<lparr>rendered_className = ''disabled'',
          rendered_modifier_markup = Some ''kss-example-button.twig:btn disabled''\<rparr>]\<rparr>"

definition button_rendered_builder :: builder where
  "button_rendered_builder =
     resolved_builder\<lparr>heap := heap resolved_builder
       @ [JObj [(''text'', JMarkup (JStr ''Hi'')),
                (''modifier_class'', JMarkup (JStr ''[modifier class]''))],
          JObj [(''modifier_class'', JMarkup (JStr ''btn [modifier class]''))],
          JObj [(''modifier_class'', JMarkup (JStr ''btn disabled''))]]\<rparr>"



text \<open>A style guide of one section, with inline markup.\<close>

definition tiny_guide :: styleGuide where
  "tiny_guide = \<lparr>sections = [inline_section], meta_files = None\<rparr>"

section \<open>An invariant of the resolution\<close>

text \<open>
  Every template record names a template of the registry: what \<^verbatim>\<open>saveTemplate\<close>
  stores under a reference is looked up by \<^verbatim>\<open>twigAsync({ref: ...})\<close> when the section
  is rendered.
\<close>

definition registered :: "builder \<Rightarrow> bool" where
  "registered s = (\<forall>r info. userTemplates s r = Some info \<longrightarrow> registry s (info_ref info) \<noteq> None)"

section \<open>Properties\<close>

subsection \<open>The heap operations, step by step\<close>

lemma copy_context_eq:
  "copy_context a s =
     (case deref (heap s) a of
        Inl e \<Rightarrow> Inl e
      | Inr v \<Rightarrow> Inr (length (heap s), s\<lparr>heap := heap s @ [JSON_copy v]\<rparr>))"
  by (simp add: copy_context_def alloc_def split: sum.splits)

lemma read_last:
  "read_modifier_class (length h) (s\<lparr>heap := h @ [d]\<rparr>) = get_modifier_class d"
  by (simp add: read_modifier_class_def deref_def)

lemma write_last:
  "write_modifier_class (length h) m (s\<lparr>heap := h @ [d]\<rparr>) =
     (case set_modifier_class m d of
        Inl e \<Rightarrow> Inl e
      | Inr d' \<Rightarrow> Inr (s\<lparr>heap := h @ [d']\<rparr>))"
  by (simp add: write_modifier_class_def deref_def store_def split: sum.splits)

lemma render_data_last:
  "render_data env template (length h) (s\<lparr>heap := h @ [d]\<rparr>) =
     (case rendering env template d of
        Inl e \<Rightarrow> Inl e
      | Inr out \<Rightarrow> Inr (out, s\<lparr>heap := h @ [safeMarkup_effect d]\<rparr>))"
  by (simp add: render_data_def rendering_def deref_def store_def split: option.splits)

lemma placeholder_data_eq:
  "placeholder_data opts sec a s =
     (case deref (heap s) a of
        Inl e \<Rightarrow> Inl e
      | Inr v \<Rightarrow>
          (case placeholder_value opts sec (JSON_copy v) of
             Inl e \<Rightarrow> Inl e
           | Inr d \<Rightarrow> Inr (length (heap s), s\<lparr>heap := heap s @ [d]\<rparr>)))"
  by (simp add: placeholder_data_def placeholder_value_def copy_context_eq read_last write_last
      split: sum.splits)

lemma modifier_data_eq:
  "modifier_data a modifier s =
     (case deref (heap s) a of
        Inl e \<Rightarrow> Inl e
      | Inr v \<Rightarrow>
          (case modifier_value modifier (JSON_copy v) of
             Inl e \<Rightarrow> Inl e
           | Inr d \<Rightarrow> Inr (length (heap s), s\<lparr>heap := heap s @ [d]\<rparr>)))"
  by (simp add: modifier_data_def modifier_value_def copy_context_eq read_last write_last
      split: sum.splits)

lemma modifier_step_eq:
  "render_modifier env template a modifier s =
     (case deref (heap s) a of
        Inl e \<Rightarrow> Inl e
      | Inr v \<Rightarrow>
          (case modifier_value modifier (JSON_copy v) of
             Inl e \<Rightarrow> Inl e
           | Inr d \<Rightarrow>
               (case rendering env template d of
                  Inl e \<Rightarrow> Inl e
                | Inr out \<Rightarrow>
                    Inr (\<lparr>rendered_className = modifier_className modifier,
                          rendered_modifier_markup = Some out\<rparr>,
                         s\<lparr>heap := heap s @ [safeMarkup_effect d]\<rparr>))))"
  by (simp add: render_modifier_def modifier_data_eq render_data_last split: sum.splits)

lemma deref_append: "deref h a = Inr v \<Longrightarrow> deref (h @ cells) a = Inr v"
  by (auto simp: deref_def nth_append split: if_splits)

lemma modifiers_value_mono:
  "modifiers_value env template cv ms = Inr x \<Longrightarrow> (\<And>v. cv = Inr v \<Longrightarrow> cv' = Inr v)
     \<Longrightarrow> modifiers_value env template cv' ms = Inr x"
proof (induction ms arbitrary: x)
  case Nil
  then show ?case by simp
next
  case (Cons m ms)
  from Cons.prems(1) obtain v where v: "cv = Inr v"
    by (cases cv) auto
  with Cons.prems(2) have v': "cv' = Inr v" by simp
  from Cons.prems(1) v obtain d out rs cells where
    "modifier_value m (JSON_copy v) = Inr d" "rendering env template d = Inr out"
    "modifiers_value env template cv ms = Inr (rs, cells)"
    and x: "x = (\<lparr>rendered_className = modifier_className m,
                  rendered_modifier_markup = Some out\<rparr> # rs, safeMarkup_effect d # cells)"
    by (auto split: sum.splits)
  moreover from this Cons.IH Cons.prems(2)
  have "modifiers_value env template cv' ms = Inr (rs, cells)" by blast
  ultimately show ?case using v' by simp
qed

lemma render_modifiers_eq:
  "render_modifiers env template a ms s =
     (case modifiers_value env template (deref (heap s) a) ms of
        Inl e \<Rightarrow> Inl e
      | Inr (rs, cells) \<Rightarrow> Inr (rs, s\<lparr>heap := heap s @ cells\<rparr>))"
proof (induction ms arbitrary: s)
  case Nil
  then show ?case by simp
next
  case (Cons m ms)
  show ?case
  proof (cases "deref (heap s) a")
    case (Inl e)
    then show ?thesis by (simp add: modifier_step_eq)
  next
    case (Inr v)
    have ext: "deref (heap s @ cells) a = Inr v" for cells
      using Inr by (rule deref_append)
    show ?thesis
      by (simp add: modifier_step_eq Inr Cons.IH ext split: sum.splits prod.splits)
  qed
qed

lemma render_data_last2:
  "render_data env template (Suc (length h)) (s\<lparr>heap := h @ [c, d]\<rparr>) =
     (case rendering env template d of
        Inl e \<Rightarrow> Inl e
      | Inr out \<Rightarrow> Inr (out, s\<lparr>heap := h @ [c, safeMarkup_effect d]\<rparr>))"
  by (simp add: render_data_def rendering_def deref_def store_def nth_append list_update_append
      split: option.splits)

lemma exampleRef_nonempty: "exampleRef info = Some r \<Longrightarrow> r \<noteq> []"
  by (auto simp: exampleRef_def split: option.splits if_splits)

lemmas render_steps =
  render_section_def section_value_def twigAsync_ref_def placeholder_data_eq render_data_last
  render_data_last2 render_modifiers_eq

lemma render_section_eq:
  assumes valid: "\<And>info. userTemplates s (section_reference sec) = Some info
                   \<Longrightarrow> exampleRef info \<noteq> None \<Longrightarrow> info_exampleContext info < length (heap s)"
  shows "render_section env opts sec s =
     (case section_value env opts sec (userTemplates s) (registry s) (deref (heap s)) of
        Inl e \<Rightarrow> Inl e
      | Inr (r, cells) \<Rightarrow> Inr (r, s\<lparr>heap := heap s @ cells\<rparr>))"
proof (cases "section_markup sec = []")
  case True
  then show ?thesis by (simp add: render_steps)
next
  case markup: False
  show ?thesis
  proof (cases "userTemplates s (section_reference sec)")
    case None
    with markup show ?thesis by (simp add: render_steps)
  next
    case (Some info)
    note info = markup Some
    show ?thesis
    proof (cases "deref (heap s) (info_context info)")
      case (Inl e)
      with info show ?thesis by (simp add: render_steps)
    next
      case v: (Inr v)
      have ext: "deref (heap s @ cells) (info_context info) = Inr v" for cells
        using v by (rule deref_append)
      show ?thesis
      proof (cases "placeholder_value opts sec (JSON_copy v)")
        case (Inl e)
        with info v show ?thesis by (simp add: render_steps)
      next
        case d: (Inr d)
        show ?thesis
        proof (cases "rendering env (registry s (info_ref info)) d")
          case (Inl e)
          with info v d show ?thesis by (simp add: render_steps)
        next
          case out: (Inr out)
          show ?thesis
          proof (cases "exampleRef info")
            case None
            with info v d out ext show ?thesis
              by (simp add: render_steps split: sum.splits prod.splits)
          next
            case (Some r)
            then have r: "r \<noteq> []" by (rule exampleRef_nonempty)
            from valid info Some obtain v' where
              v': "deref (heap s) (info_exampleContext info) = Inr v'"
              by (auto simp: deref_def)
            have ext': "deref (heap s @ cells) (info_exampleContext info) = Inr v'" for cells
              using v' by (rule deref_append)
            from info v d out Some r v' ext' show ?thesis
              by (simp add: render_steps split: sum.splits prod.splits)
          qed
        qed
      qed
    qed
  qed
qed

subsection \<open>The modifier class\<close>



lemma set_after_set:
  "set_modifier_class x d = Inr d' \<Longrightarrow> set_modifier_class y d' = set_modifier_class y d"
proof -
  have "assign k y (assign k x kvs) = assign k y kvs" for k kvs
    by (induction kvs) auto
  then show "set_modifier_class x d = Inr d' \<Longrightarrow> set_modifier_class y d' = set_modifier_class y d"
    by (cases d) auto
qed



lemma placeholder_value_modifiers:
  "(ms = [] \<longleftrightarrow> section_modifiers sec = [])
     \<Longrightarrow> placeholder_value opts (sec\<lparr>section_modifiers := ms\<rparr>) d = placeholder_value opts sec d"
  by (auto simp: placeholder_value_def split: sum.splits)

lemma modifiers_value_length:
  "modifiers_value env template cv ms = Inr (rs, cells) \<Longrightarrow> length cells = length ms"
  by (induction ms arbitrary: rs cells) (auto split: sum.splits)

lemma section_value_mono:
  assumes "section_value env opts sec infos reg look = Inr x"
    and "\<And>a v. look a = Inr v \<Longrightarrow> look' a = Inr v"
  shows "section_value env opts sec infos reg look' = Inr x"
proof (cases "section_markup sec = []")
  case True
  with assms(1) show ?thesis by (simp add: section_value_def)
next
  case False
  with assms(1) obtain info v where info: "infos (section_reference sec) = Some info"
    "info_ref info \<noteq> []" and v: "look (info_context info) = Inr v"
    by (auto simp: section_value_def split: option.splits if_splits sum.splits)
  from v assms(2) have v': "look' (info_context info) = Inr v" by blast
  show ?thesis
  proof (cases "exampleRef info")
    case None
    with assms(1) False info v v' show ?thesis
      by (auto simp: section_value_def split: sum.splits)
  next
    case (Some r)
    with assms(1) False info v obtain w where w: "look (info_exampleContext info) = Inr w"
      by (auto simp: section_value_def split: sum.splits)
    from w assms(2) have w': "look' (info_exampleContext info) = Inr w" by blast
    from assms(1) False info v v' w w' Some show ?thesis
      by (auto simp: section_value_def split: sum.splits)
  qed
qed

lemma section_value_cells:
  assumes "section_value env opts sec infos reg look = Inr (r, cells)"
    and "infos (section_reference sec) = Some info"
  shows "length cells =
           (if section_markup sec = [] then 0
            else 1 + (if exampleRef info = None then 0 else 1) + length (section_modifiers sec))"
  using assms
  by (auto simp: section_value_def dest: modifiers_value_length
      split: sum.splits option.splits if_splits)

subsection \<open>A rendered section\<close>

lemma section_value_parts:
  assumes "section_value env opts sec infos reg look = Inr (r, cells)"
    and "section_markup sec \<noteq> []"
    and "infos (section_reference sec) = Some info"
  shows "\<exists>v d t. look (info_context info) = Inr v
           \<and> placeholder_value opts sec (JSON_copy v) = Inr d
           \<and> reg (info_ref info) = Some t
           \<and> render env t (safeMarkup d) = Some (rendered_markup r)
           \<and> rendered_reference r = section_reference sec
           \<and> (case exampleRef info of
                 None \<Rightarrow>
                   rendered_example r = Some (rendered_markup r)
                   \<and> (\<exists>mcells. modifiers_value env (reg (info_ref info)) (look (info_context info))
                                 (section_modifiers sec) = Inr (rendered_modifiers r, mcells))
               | Some e \<Rightarrow>
                   (\<exists>v' d' t' mcells. look (info_exampleContext info) = Inr v'
                      \<and> placeholder_value opts sec (JSON_copy v') = Inr d'
                      \<and> reg e = Some t'
                      \<and> rendered_example r = render env t' (safeMarkup d')
                      \<and> render env t' (safeMarkup d') \<noteq> None
                      \<and> modifiers_value env (reg e) (look (info_exampleContext info))
                            (section_modifiers sec) = Inr (rendered_modifiers r, mcells)))"
  using assms
  by (auto simp: section_value_def rendering_def split: sum.splits option.splits if_splits)


lemma render_section_frame:
  assumes "render_section env opts sec s = Inr (r, s')"
    and "\<forall>info. userTemplates s (section_reference sec) = Some info \<longrightarrow> exampleRef info \<noteq> None
             \<longrightarrow> info_exampleContext info < length (heap s)"
  shows "\<exists>cells. section_value env opts sec (userTemplates s) (registry s) (deref (heap s))
                    = Inr (r, cells) \<and> s' = s\<lparr>heap := heap s @ cells\<rparr>"
proof -
  have "render_section env opts sec s =
     (case section_value env opts sec (userTemplates s) (registry s) (deref (heap s)) of
        Inl e \<Rightarrow> Inl e
      | Inr (r, cells) \<Rightarrow> Inr (r, s\<lparr>heap := heap s @ cells\<rparr>))"
    using assms(2) by (intro render_section_eq) blast
  with assms(1) show ?thesis by (auto split: sum.splits)
qed

text \<open>
  Claim C6. For a section whose template record has no example template, the example
  view is the canonical markup string itself, the rendering of the main template with
  the copy of the main sample context.
\<close>

theorem example_defaults_to_markup:
  assumes "render_section env opts sec s = Inr (r, s')"
    and "section_markup sec \<noteq> []"
    and "userTemplates s (section_reference sec) = Some info"
    and "exampleRef info = None"
  shows "rendered_example r = Some (rendered_markup r)
       \<and> (\<exists>v d t. deref (heap s) (info_context info) = Inr v
             \<and> placeholder_value opts sec (JSON_copy v) = Inr d
             \<and> registry s (info_ref info) = Some t
             \<and> render env t (safeMarkup d) = Some (rendered_markup r))"
proof -
  from assms(3,4) have "\<forall>i. userTemplates s (section_reference sec) = Some i \<longrightarrow> exampleRef i \<noteq> None
             \<longrightarrow> info_exampleContext i < length (heap s)" by simp
  from render_section_frame [OF assms(1) this] obtain cells where
    "section_value env opts sec (userTemplates s) (registry s) (deref (heap s)) = Inr (r, cells)"
    by blast
  from section_value_parts [OF this assms(2,3)] assms(4) show ?thesis by auto
qed

text \<open>
  Claim C4. Rendering a section never changes a stored sample context: every object that
  was on the heap before is the same afterwards, and each rendering (the markup, the
  example when there is one, each modifier) has allocated one new object, its own copy.
  So rendering the section again gives the same result, and the markup and the example
  do not depend on which modifiers are rendered after them.
\<close>

theorem stored_contexts_not_mutated:
  assumes run: "render_section env opts sec s = Inr (r, s')"
    and markup: "section_markup sec \<noteq> []"
    and info: "userTemplates s (section_reference sec) = Some info"
    and valid: "exampleRef info = None \<or> info_exampleContext info < length (heap s)"
  shows "(\<forall>a<length (heap s). heap s' ! a = heap s ! a)
       \<and> userTemplates s' = userTemplates s \<and> registry s' = registry s
       \<and> length (heap s') = length (heap s) + 1 + (if exampleRef info = None then 0 else 1)
                                + length (section_modifiers sec)
       \<and> (\<exists>s''. render_section env opts sec s' = Inr (r, s''))
       \<and> (\<forall>ms r2 s2. (ms = [] \<longleftrightarrow> section_modifiers sec = [])
            \<longrightarrow> render_section env opts (sec\<lparr>section_modifiers := ms\<rparr>) s = Inr (r2, s2)
            \<longrightarrow> rendered_markup r2 = rendered_markup r \<and> rendered_example r2 = rendered_example r)"
proof -
  from info valid have valid': "\<forall>i. userTemplates s (section_reference sec) = Some i
      \<longrightarrow> exampleRef i \<noteq> None \<longrightarrow> info_exampleContext i < length (heap s)" by auto
  from render_section_frame [OF run valid'] obtain cells where
    sv: "section_value env opts sec (userTemplates s) (registry s) (deref (heap s)) = Inr (r, cells)"
    and s': "s' = s\<lparr>heap := heap s @ cells\<rparr>" by blast
  have frame: "\<forall>a<length (heap s). heap s' ! a = heap s ! a"
    by (simp add: s' nth_append)
  have same: "userTemplates s' = userTemplates s \<and> registry s' = registry s"
    by (simp add: s')
  have count: "length (heap s') = length (heap s) + 1 + (if exampleRef info = None then 0 else 1)
                                   + length (section_modifiers sec)"
    using section_value_cells [OF sv info] markup by (simp add: s')
  have again: "\<exists>s''. render_section env opts sec s' = Inr (r, s'')"
  proof -
    have "section_value env opts sec (userTemplates s') (registry s') (deref (heap s')) = Inr (r, cells)"
      using sv by (simp add: s') (erule section_value_mono, simp add: deref_append)
    moreover have "render_section env opts sec s' =
       (case section_value env opts sec (userTemplates s') (registry s') (deref (heap s')) of
          Inl e \<Rightarrow> Inl e
        | Inr (r, cells) \<Rightarrow> Inr (r, s'\<lparr>heap := heap s' @ cells\<rparr>))"
      using valid' by (intro render_section_eq) (auto simp: s')
    ultimately show ?thesis by simp
  qed
  have iso: "rendered_markup r2 = rendered_markup r \<and> rendered_example r2 = rendered_example r"
    if ms: "(ms = [] \<longleftrightarrow> section_modifiers sec = [])"
      and run2: "render_section env opts (sec\<lparr>section_modifiers := ms\<rparr>) s = Inr (r2, s2)"
    for ms r2 s2
  proof -
    let ?sec2 = "sec\<lparr>section_modifiers := ms\<rparr>"
    from valid' have valid2: "\<forall>i. userTemplates s (section_reference ?sec2) = Some i
        \<longrightarrow> exampleRef i \<noteq> None \<longrightarrow> info_exampleContext i < length (heap s)" by simp
    from render_section_frame [OF run2 valid2] obtain cells2 where
      sv2: "section_value env opts ?sec2 (userTemplates s) (registry s) (deref (heap s)) = Inr (r2, cells2)"
      by blast
    from section_value_parts [OF sv markup info]
      section_value_parts [OF sv2, of info] markup info ms
    show ?thesis
      by (cases "exampleRef info") (auto simp: placeholder_value_modifiers)
  qed
  from frame same count again iso show ?thesis by blast
qed



subsection \<open>The markup of a section\<close>

lemma is_file_reference_iff:
  "is_file_reference m \<longleftrightarrow> (\<exists>stem. stem \<noteq> [] \<and> CHR 0x0A \<notin> set stem \<and> m = stem @ ''.twig'')"
proof
  assume a: "is_file_reference m"
  let ?n = "length m"
  from a have n: "5 < ?n" and d: "drop (?n - 5) m = ''.twig''"
    and t: "CHR 0x0A \<notin> set (take (?n - 5) m)"
    by (simp_all add: is_file_reference_def Let_def)
  have "m = take (?n - 5) m @ drop (?n - 5) m" by simp
  with d have "m = take (?n - 5) m @ ''.twig''" by simp
  moreover from n have "take (?n - 5) m \<noteq> []" by auto
  ultimately show "\<exists>stem. stem \<noteq> [] \<and> CHR 0x0A \<notin> set stem \<and> m = stem @ ''.twig''"
    using t by blast
next
  assume "\<exists>stem. stem \<noteq> [] \<and> CHR 0x0A \<notin> set stem \<and> m = stem @ ''.twig''"
  then obtain stem where s: "stem \<noteq> []" "CHR 0x0A \<notin> set stem" "m = stem @ ''.twig''" by blast
  then show "is_file_reference m"
    by (cases stem) (simp_all add: is_file_reference_def Let_def)
qed

lemma new_template_eq:
  "new_template sec s =
     (\<lparr>template_name = section_reference sec, template_reference = section_reference sec,
       template_file = [], template_markup = section_markup sec,
       template_context = length (heap s), template_exampleName = None,
       template_exampleFile = [], template_exampleContext = Suc (length (heap s))\<rparr>,
      s\<lparr>heap := heap s @ [JObj [], JObj []]\<rparr>)"
  by (simp add: new_template_def alloc_def)

lemma resolve_inline:
  assumes "section_markup sec \<noteq> []" and "\<not> is_file_reference (section_markup sec)"
    and "twig_compiles env (registry s) (section_reference sec) (Data (section_markup sec))"
  shows "\<exists>s' info. resolve_section env opts sec s = Inr s'
     \<and> registry s' (section_reference sec)
           = Some (Template (section_reference sec) (Data (section_markup sec)))
     \<and> userTemplates s' (section_reference sec) = Some info
     \<and> info_ref info = section_reference sec
     \<and> info_exampleRef info = None
     \<and> deref (heap s') (info_context info) = Inr (JObj [])"
  using assms
  by (simp add: resolve_section_def new_template_eq compileInline_def twig_def log_def
      saveTemplate_def deref_def nth_append)

text \<open>
  Claim C8, as amended. The markup of a section is a file reference exactly when it is
  one or more characters other than a line feed followed by \<^verbatim>\<open>.twig\<close>. Any other
  non-empty markup is compiled as an inline template under the section's reference, and
  the template record has no example and an empty sample context.
\<close>

theorem markup_classification:
  "(is_file_reference m \<longleftrightarrow>
      (\<exists>stem. stem \<noteq> [] \<and> CHR 0x0A \<notin> set stem \<and> m = stem @ ''.twig''))
   \<and> (section_markup sec \<noteq> [] \<longrightarrow> \<not> is_file_reference (section_markup sec) \<longrightarrow>
        twig_compiles env (registry s) (section_reference sec) (Data (section_markup sec)) \<longrightarrow>
        (\<exists>s' info. resolve_section env opts sec s = Inr s'
           \<and> registry s' (section_reference sec)
                 = Some (Template (section_reference sec) (Data (section_markup sec)))
           \<and> userTemplates s' (section_reference sec) = Some info
           \<and> info_ref info = section_reference sec
           \<and> info_exampleRef info = None
           \<and> deref (heap s') (info_context info) = Inr (JObj [])))"
  using is_file_reference_iff [of m] resolve_inline [of sec env s opts] by blast

text \<open>
  The claim as it was written fails on the markup \<^verbatim>\<open>.twig\<close>: a single line without a
  line break that ends in \<^verbatim>\<open>.twig\<close>, which line 380 does not take for a file.
\<close>

theorem markup_classification_counterexample:
  "single_line_twig_name ''.twig'' \<and> \<not> is_file_reference ''.twig''"
  by (simp add: single_line_twig_name_def is_file_reference_def)

subsection \<open>The small style guide\<close>

lemmas example_defs =
  example_env_def example_options_def new_builder_def disabled_def inline_section_def
  button_section_def missing_section_def resolved_builder_def posix_basename_def

lemma example_render:
  "render example_env t v =
     Some (twig_id t @ '':'' @ (case get_modifier_class v of Inl e \<Rightarrow> [] | Inr m \<Rightarrow> to_string m))"
  by (simp add: example_env_def)

lemma resolved_builder_simps:
  "heap resolved_builder
     = [JObj [(''text'', JStr ''Hi'')], JObj [], JObj [(''modifier_class'', JStr ''btn'')]]"
  "userTemplates resolved_builder ''1''
     = Some \<lparr>info_ref = ''1'', info_context = 0, info_exampleRef = None, info_exampleContext = 1\<rparr>"
  "userTemplates resolved_builder ''1.1''
     = Some \<lparr>info_ref = ''button.twig'', info_context = 0,
             info_exampleRef = Some ''kss-example-button.twig'', info_exampleContext = 2\<rparr>"
  "registry resolved_builder ''1'' = Some (Template ''1'' (Data ''<button>''))"
  "registry resolved_builder ''button.twig''
     = Some (Template ''button.twig'' (Path ''b/x/button.twig''))"
  "registry resolved_builder ''kss-example-button.twig''
     = Some (Template ''kss-example-button.twig'' (Path ''a/kss-example-button.twig''))"
  by (simp_all add: resolved_builder_def new_builder_def)

lemmas value_defs =
  section_value_def placeholder_value_def modifier_value_def rendering_def exampleRef_def
  deref_def example_render resolved_builder_simps

lemma inline_run:
  "render_section example_env example_options inline_section resolved_builder
     = Inr (inline_rendered, inline_rendered_builder)"
proof -
  have "render_section example_env example_options inline_section resolved_builder =
     (case section_value example_env example_options inline_section
             (userTemplates resolved_builder) (registry resolved_builder)
             (deref (heap resolved_builder)) of
        Inl e \<Rightarrow> Inl e
      | Inr (r, cells) \<Rightarrow> Inr (r, resolved_builder\<lparr>heap := heap resolved_builder @ cells\<rparr>))"
    by (rule render_section_eq) (simp add: inline_section_def value_defs)
  then show ?thesis
    by (simp add: value_defs inline_section_def example_options_def disabled_def
        inline_rendered_def inline_rendered_builder_def)
qed

lemma button_run:
  "render_section example_env example_options button_section resolved_builder
     = Inr (button_rendered, button_rendered_builder)"
proof -
  have "render_section example_env example_options button_section resolved_builder =
     (case section_value example_env example_options button_section
             (userTemplates resolved_builder) (registry resolved_builder)
             (deref (heap resolved_builder)) of
        Inl e \<Rightarrow> Inl e
      | Inr (r, cells) \<Rightarrow> Inr (r, resolved_builder\<lparr>heap := heap resolved_builder @ cells\<rparr>))"
    by (rule render_section_eq) (simp add: button_section_def value_defs)
  then show ?thesis
    by (simp add: value_defs button_section_def example_options_def disabled_def
        button_rendered_def button_rendered_builder_def)
qed

theorem markup_classification_witness:
  "is_file_reference ''button.twig''
   \<and> section_markup inline_section \<noteq> []
   \<and> \<not> is_file_reference (section_markup inline_section)
   \<and> twig_compiles example_env (registry new_builder) (section_reference inline_section)
        (Data (section_markup inline_section))
   \<and> (\<exists>s' info. resolve_section example_env example_options inline_section new_builder = Inr s'
         \<and> registry s' ''1'' = Some (Template ''1'' (Data ''<button>''))
         \<and> userTemplates s' ''1'' = Some info
         \<and> info_ref info = ''1''
         \<and> info_exampleRef info = None
         \<and> deref (heap s') (info_context info) = Inr (JObj []))"
proof -
  have a: "is_file_reference ''button.twig''"
    by (simp add: is_file_reference_def)
  have b: "section_markup inline_section \<noteq> []"
    and c: "\<not> is_file_reference (section_markup inline_section)"
    and d: "twig_compiles example_env (registry new_builder) (section_reference inline_section)
        (Data (section_markup inline_section))"
    by (simp_all add: inline_section_def is_file_reference_def example_env_def)
  from markup_classification [of "''button.twig''" inline_section example_env new_builder
      example_options] b c d
  have "\<exists>s' info. resolve_section example_env example_options inline_section new_builder = Inr s'
     \<and> registry s' (section_reference inline_section)
           = Some (Template (section_reference inline_section)
                     (Data (section_markup inline_section)))
     \<and> userTemplates s' (section_reference inline_section) = Some info
     \<and> info_ref info = section_reference inline_section
     \<and> info_exampleRef info = None
     \<and> deref (heap s') (info_context info) = Inr (JObj [])"
    by blast
  then have "\<exists>s' info. resolve_section example_env example_options inline_section new_builder = Inr s'
         \<and> registry s' ''1'' = Some (Template ''1'' (Data ''<button>''))
         \<and> userTemplates s' ''1'' = Some info
         \<and> info_ref info = ''1''
         \<and> info_exampleRef info = None
         \<and> deref (heap s') (info_context info) = Inr (JObj [])"
    by (simp add: inline_section_def)
  with a b c d show ?thesis by blast
qed


theorem example_defaults_to_markup_witness:
  "render_section example_env example_options inline_section resolved_builder
     = Inr (inline_rendered, inline_rendered_builder)
   \<and> section_markup inline_section \<noteq> []
   \<and> userTemplates resolved_builder (section_reference inline_section)
       = Some \<lparr>info_ref = ''1'', info_context = 0, info_exampleRef = None,
               info_exampleContext = 1\<rparr>
   \<and> exampleRef \<lparr>info_ref = ''1'', info_context = 0, info_exampleRef = None,
                  info_exampleContext = 1\<rparr> = None
   \<and> rendered_example inline_rendered = Some (rendered_markup inline_rendered)"
proof -
  have m: "section_markup inline_section \<noteq> []" by (simp add: inline_section_def)
  have i: "userTemplates resolved_builder (section_reference inline_section)
       = Some \<lparr>info_ref = ''1'', info_context = 0, info_exampleRef = None,
               info_exampleContext = 1\<rparr>"
    by (simp add: inline_section_def value_defs)
  have e: "exampleRef \<lparr>info_ref = ''1'', info_context = 0, info_exampleRef = None,
                  info_exampleContext = 1\<rparr> = None"
    by (simp add: exampleRef_def)
  from example_defaults_to_markup [OF inline_run m i e] inline_run m i e show ?thesis
    by blast
qed

theorem stored_contexts_not_mutated_witness:
  "render_section example_env example_options button_section resolved_builder
     = Inr (button_rendered, button_rendered_builder)
   \<and> section_markup button_section \<noteq> []
   \<and> userTemplates resolved_builder (section_reference button_section)
       = Some \<lparr>info_ref = ''button.twig'', info_context = 0,
               info_exampleRef = Some ''kss-example-button.twig'', info_exampleContext = 2\<rparr>
   \<and> 2 < length (heap resolved_builder)
   \<and> heap button_rendered_builder ! 0 = heap resolved_builder ! 0
   \<and> heap button_rendered_builder ! 2 = heap resolved_builder ! 2
   \<and> length (heap button_rendered_builder) = 6
   \<and> (\<exists>s''. render_section example_env example_options button_section button_rendered_builder
              = Inr (button_rendered, s''))"
proof -
  have m: "section_markup button_section \<noteq> []" by (simp add: button_section_def)
  have i: "userTemplates resolved_builder (section_reference button_section)
       = Some \<lparr>info_ref = ''button.twig'', info_context = 0,
               info_exampleRef = Some ''kss-example-button.twig'', info_exampleContext = 2\<rparr>"
    by (simp add: button_section_def value_defs)
  have l: "2 < length (heap resolved_builder)" by (simp add: value_defs)
  then have v: "exampleRef \<lparr>info_ref = ''button.twig'', info_context = 0,
               info_exampleRef = Some ''kss-example-button.twig'', info_exampleContext = 2\<rparr> = None
     \<or> info_exampleContext \<lparr>info_ref = ''button.twig'', info_context = 0,
               info_exampleRef = Some ''kss-example-button.twig'', info_exampleContext = 2\<rparr>
         < length (heap resolved_builder)" by simp
  note t = stored_contexts_not_mutated [OF button_run m i v]
  from t have f: "a < length (heap resolved_builder)
      \<Longrightarrow> heap button_rendered_builder ! a = heap resolved_builder ! a" for a by blast
  have "heap button_rendered_builder ! 0 = heap resolved_builder ! 0"
    by (rule f) (simp add: value_defs)
  moreover have "heap button_rendered_builder ! 2 = heap resolved_builder ! 2"
    by (rule f) (rule l)
  moreover from t have "length (heap button_rendered_builder) = 6"
    by (simp add: value_defs button_section_def disabled_def)
  moreover from t have "\<exists>s''. render_section example_env example_options button_section
      button_rendered_builder = Inr (button_rendered, s'')" by blast
  ultimately show ?thesis using button_run m i l by blast
qed



subsection \<open>What rendering and page building leave alone\<close>

lemma compiled_simps [simp]:
  "compiled (s\<lparr>heap := h\<rparr>) = compiled s"
  "compiled (s\<lparr>log_lines := l\<rparr>) = compiled s"
  "compiled (s\<lparr>written := w\<rparr>) = compiled s"
  "compiled (log line s) = compiled s"
  by (simp_all add: compiled_def page_templates_def log_def)

lemma page_templates_simps [simp]:
  "page_templates (s\<lparr>heap := h\<rparr>) = page_templates s"
  "page_templates (s\<lparr>log_lines := l\<rparr>) = page_templates s"
  "page_templates (s\<lparr>written := w\<rparr>) = page_templates s"
  "page_templates (s\<lparr>registry := r\<rparr>) = page_templates s"
  "page_templates (s\<lparr>userTemplates := u\<rparr>) = page_templates s"
  "page_templates (s\<lparr>modules := m\<rparr>) = page_templates s"
  "page_templates (log line s) = page_templates s"
  "page_templates (registryReset s) = page_templates s"
  by (simp_all add: page_templates_def log_def registryReset_def)

lemma copy_context_compiled:
  "copy_context a s = Inr (d, s') \<Longrightarrow> compiled s' = compiled s"
  by (auto simp: copy_context_def alloc_def split: sum.splits)

lemma write_modifier_class_compiled:
  "write_modifier_class d m s = Inr s' \<Longrightarrow> compiled s' = compiled s"
  by (auto simp: write_modifier_class_def split: sum.splits)

lemma render_data_compiled:
  "render_data env t d s = Inr (out, s') \<Longrightarrow> compiled s' = compiled s"
  by (auto simp: render_data_def split: sum.splits option.splits)

lemma placeholder_data_compiled:
  "placeholder_data opts sec a s = Inr (d, s') \<Longrightarrow> compiled s' = compiled s"
  by (auto simp: placeholder_data_def split: sum.splits if_splits
      dest!: copy_context_compiled write_modifier_class_compiled)

lemma modifier_data_compiled:
  "modifier_data a m s = Inr (d, s') \<Longrightarrow> compiled s' = compiled s"
  by (auto simp: modifier_data_def split: sum.splits
      dest!: copy_context_compiled write_modifier_class_compiled)

lemma render_modifier_compiled:
  "render_modifier env t a m s = Inr (r, s') \<Longrightarrow> compiled s' = compiled s"
  by (auto simp: render_modifier_def split: sum.splits
      dest!: modifier_data_compiled render_data_compiled)

lemma render_modifiers_compiled:
  "render_modifiers env t a ms s = Inr (rs, s') \<Longrightarrow> compiled s' = compiled s"
proof (induction ms arbitrary: s rs)
  case Nil
  then show ?case by simp
next
  case (Cons m ms)
  then show ?case
    by (auto split: sum.splits dest!: render_modifier_compiled)
qed

lemma render_section_compiled:
  assumes "render_section env opts sec s = Inr (r, s')"
  shows "compiled s' = compiled s"
  using assms
  by (auto simp: render_section_def split: sum.splits option.splits prod.splits if_splits
      dest!: placeholder_data_compiled render_data_compiled render_modifiers_compiled)

lemma render_sections_compiled:
  "render_sections env opts secs s = Inr (rs, s') \<Longrightarrow> compiled s' = compiled s"
proof (induction secs arbitrary: s rs)
  case Nil
  then show ?case by simp
next
  case (Cons sec secs)
  then show ?case
    by (auto split: sum.splits dest!: render_section_compiled)
qed

lemma buildPage_compiled:
  assumes "buildPage env opts sg kind pageReference secs s = Inr s'"
  shows "compiled s' = compiled s"
  using assms
  by (auto simp: buildPage_def getHomepageText_def Let_def
      split: sum.splits option.splits prod.splits if_splits list.splits
      dest!: render_sections_compiled)

subsection \<open>The scan of the search results\<close>

lemma scan_files_done:
  "foundTemplate sc \<Longrightarrow> foundExample sc \<Longrightarrow> scan_files env files sc = sc"
  by (induction files) (simp_all add: Let_def)

lemma scan_files_append:
  "scan_files env (xs @ ys) sc = scan_files env ys (scan_files env xs sc)"
  by (induction xs arbitrary: sc) (simp_all add: Let_def)

lemma scan_matches_concat:
  "scan_matches env globMatches sc = scan_files env (concat globMatches) sc"
proof (induction globMatches arbitrary: sc)
  case Nil
  then show ?case by simp
next
  case (Cons files globMatches)
  show ?case
  proof (cases "foundTemplate sc \<and> foundExample sc")
    case True
    then show ?thesis
      by (simp add: Cons.IH scan_files_append scan_files_done)
  next
    case False
    then show ?thesis
      by (auto simp: Cons.IH scan_files_append)
  qed
qed

lemma first_named_simps [simp]:
  "first_named env name [] = None"
  "first_named env name (f # fs) =
     (if path_basename env f = name then Some f else first_named env name fs)"
  by (simp_all add: first_named_def)

lemma scan_files_result:
  assumes "template_name (scanned sc) = n" and "template_exampleName (scanned sc) = Some en"
    and "n \<noteq> en" and "r = scan_files env files sc"
  shows "foundTemplate r = (foundTemplate sc \<or> first_named env n files \<noteq> None)
   \<and> foundExample r = (foundExample sc \<or> first_named env en files \<noteq> None)
   \<and> template_file (scanned r) =
        (if foundTemplate sc then template_file (scanned sc)
         else case first_named env n files of
                None \<Rightarrow> template_file (scanned sc) | Some f \<Rightarrow> f)
   \<and> template_exampleFile (scanned r) =
        (if foundExample sc then template_exampleFile (scanned sc)
         else case first_named env en files of
                None \<Rightarrow> template_exampleFile (scanned sc) | Some f \<Rightarrow> f)
   \<and> template_name (scanned r) = n
   \<and> template_exampleName (scanned r) = Some en
   \<and> template_reference (scanned r) = template_reference (scanned sc)
   \<and> template_markup (scanned r) = template_markup (scanned sc)
   \<and> template_context (scanned r) = template_context (scanned sc)
   \<and> template_exampleContext (scanned r) = template_exampleContext (scanned sc)
   \<and> set (compileTemplates r) =
       set (compileTemplates sc)
       \<union> (if foundTemplate sc then {}
          else case first_named env n files of None \<Rightarrow> {} | Some f \<Rightarrow> {Compile_template n f})
       \<union> (if foundExample sc then {}
          else case first_named env en files of None \<Rightarrow> {} | Some f \<Rightarrow> {Compile_example en f})"
  using assms
proof (induction files arbitrary: sc)
  case Nil
  then show ?case by simp
next
  case (Cons f files)
  let ?b = "path_basename env f"
  consider (main) "\<not> foundTemplate sc" "?b = n"
    | (example) "\<not> (\<not> foundTemplate sc \<and> ?b = n)" "\<not> foundExample sc" "?b = en"
    | (neither) "\<not> (\<not> foundTemplate sc \<and> ?b = n)" "\<not> (\<not> foundExample sc \<and> ?b = en)"
    by blast
  then show ?case
  proof cases
    case main
    let ?sc = "sc\<lparr>foundTemplate := True,
                 scanned := (scanned sc)\<lparr>template_file := f\<rparr>,
                 compileTemplates := compileTemplates sc @ [Compile_template n f]\<rparr>"
    have step: "r = scan_files env files ?sc"
      using main Cons.prems by (simp add: Let_def)
    have "template_name (scanned ?sc) = n" "template_exampleName (scanned ?sc) = Some en"
      using Cons.prems by simp_all
    from Cons.IH [OF this Cons.prems(3) step] main Cons.prems(3) show ?thesis
      by (auto split: option.splits)
  next
    case example
    let ?sc = "sc\<lparr>foundExample := True,
                 scanned := (scanned sc)\<lparr>template_exampleFile := f\<rparr>,
                 compileTemplates := compileTemplates sc @ [Compile_example en f]\<rparr>"
    have step: "r = scan_files env files ?sc"
      using example Cons.prems by (auto simp: Let_def)
    have "template_name (scanned ?sc) = n" "template_exampleName (scanned ?sc) = Some en"
      using Cons.prems by simp_all
    from Cons.IH [OF this Cons.prems(3) step] example Cons.prems(3) show ?thesis
      by (auto split: option.splits)
  next
    case neither
    have step: "r = scan_files env files sc"
      using neither Cons.prems by (auto simp: Let_def)
    from Cons.IH [OF Cons.prems(1,2,3) step] neither Cons.prems(3) show ?thesis
      by (auto split: option.splits)
  qed
qed

subsection \<open>The searches and the compilations\<close>

lemma those_eq_Some: "those xs = Some ys \<longleftrightarrow> xs = map Some ys"
  by (induction xs arbitrary: ys) (auto split: option.splits)

lemma settle_fold:
  "i < length slots \<Longrightarrow>
   fold (\<lambda>i slots. if i < length slots then slots[i := Some (results ! i)] else slots)
     order slots ! i
     = (if i \<in> set order then Some (results ! i) else slots ! i)
   \<and> length (fold (\<lambda>i slots. if i < length slots then slots[i := Some (results ! i)] else slots)
       order slots) = length slots"
proof (induction order arbitrary: slots)
  case Nil
  then show ?case by simp
next
  case (Cons j order)
  let ?slots = "if j < length slots then slots[j := Some (results ! j)] else slots"
  have "i < length ?slots" using Cons.prems by simp
  from Cons.IH [OF this] Cons.prems show ?case
    by (auto simp: nth_list_update)
qed

lemma settle_nth:
  "i < length results \<Longrightarrow>
   settle order results ! i = (if i \<in> set order then Some (results ! i) else None)"
  "length (settle order results) = length results"
proof -
  show "length (settle order results) = length results"
  proof (cases results)
    case Nil
    then show ?thesis
      by (simp add: settle_def) (induction order, simp_all)
  next
    case (Cons x xs)
    then have "0 < length (replicate (length results) (None :: 'a option))" by simp
    from settle_fold [OF this, of results order] show ?thesis
      by (simp add: settle_def)
  qed
  show "settle order results ! i = (if i \<in> set order then Some (results ! i) else None)"
    if "i < length results"
  proof -
    from that have "i < length (replicate (length results) (None :: 'a option))" by simp
    from settle_fold [OF this, of results order] that show ?thesis
      by (simp add: settle_def)
  qed
qed

lemma Promise_all_Some:
  assumes "Promise_all order results = Some values"
  shows "values = results"
proof (rule nth_equalityI)
  from assms have eq: "settle order results = map Some values"
    by (simp add: Promise_all_def those_eq_Some)
  then have "length (settle order results) = length values" by simp
  then show len: "length values = length results" by (simp add: settle_nth(2))
  fix i assume "i < length values"
  with len have i: "i < length results" by simp
  from eq i len have "settle order results ! i = Some (values ! i)" by simp
  with settle_nth(1) [OF i, of order] show "values ! i = results ! i"
    by (auto split: if_splits)
qed

lemma Promise_all_any_order:
  assumes "{..<length results} \<subseteq> set order"
  shows "Promise_all order results = Some results"
proof -
  have "settle order results = map Some results"
  proof (rule nth_equalityI)
    show "length (settle order results) = length (map Some results)"
      by (simp add: settle_nth(2))
    fix i assume "i < length (settle order results)"
    then have i: "i < length results" by (simp add: settle_nth(2))
    with assms have "i \<in> set order" by auto
    with settle_nth(1) [OF i, of order] i show "settle order results ! i = map Some results ! i"
      by simp
  qed
  then show ?thesis by (simp add: Promise_all_def those_eq_Some)
qed

lemma twigAsync_effect:
  assumes "twigAsync env i src s = Inr (c, s')"
  shows "s' = s\<lparr>registry := (registry s)(i \<mapsto> Template i src)\<rparr> \<and> c = Template i src"
  using assms by (cases src) (auto simp: twig_def split: if_splits)

lemma require_sample_effect:
  assumes "require_sample env f name s = (a, s')"
  shows "registry s' = registry s \<and> userTemplates s' = userTemplates s
       \<and> page_templates s' = page_templates s \<and> log_lines s' = log_lines s
       \<and> written s' = written s \<and> (\<exists>cells. heap s' = heap s @ cells)"
  using assms
  by (auto simp: require_sample_def alloc_def Let_def page_templates_def
      split: option.splits)

lemma run_task_effect:
  assumes "run_task env k (t, s) = Inr (t', s')"
  shows "registry s' = (registry s)(task_id k \<mapsto> Template (task_id k) (task_source k))
       \<and> userTemplates s' = userTemplates s
       \<and> page_templates s' = page_templates s \<and> log_lines s' = log_lines s
       \<and> written s' = written s \<and> (\<exists>cells. heap s' = heap s @ cells)
       \<and> template_name t' = template_name t \<and> template_reference t' = template_reference t
       \<and> template_markup t' = template_markup t \<and> template_file t' = template_file t
       \<and> template_exampleName t' = template_exampleName t
       \<and> template_exampleFile t' = template_exampleFile t
       \<and> ((\<forall>f. k \<noteq> Compile_template (task_id k) f) \<longrightarrow> template_context t' = template_context t)
       \<and> ((\<forall>f. k \<noteq> Compile_example (task_id k) f)
            \<longrightarrow> template_exampleContext t' = template_exampleContext t)"
proof (cases k)
  case (Compile_template i f)
  with assms obtain c s1 a where
    tw: "twigAsync env i (Path f) s = Inr (c, s1)" and
    rq: "require_sample env (template_file t) (template_name t) s1 = (a, s')" and
    t': "t' = t\<lparr>template_context := a\<rparr>"
    by (auto simp del: twigAsync.simps split: sum.splits prod.splits)
  from twigAsync_effect [OF tw] require_sample_effect [OF rq] t' Compile_template
  show ?thesis
    by (auto simp: page_templates_def)
next
  case (Compile_example i f)
  with assms obtain c s1 a where
    tw: "twigAsync env i (Path f) s = Inr (c, s1)" and
    rq: "require_sample env (template_exampleFile t) i s1 = (a, s')" and
    t': "t' = t\<lparr>template_exampleContext := a\<rparr>"
    by (auto simp del: twigAsync.simps split: sum.splits prod.splits)
  from twigAsync_effect [OF tw] require_sample_effect [OF rq] t' Compile_example
  show ?thesis
    by (auto simp: page_templates_def)
next
  case (Compile_data i d)
  with assms obtain c where tw: "twigAsync env i (Data d) s = Inr (c, s')" and t': "t' = t"
    by (auto simp del: twigAsync.simps split: sum.splits prod.splits)
  from twigAsync_effect [OF tw] t' Compile_data show ?thesis
    by (auto simp: page_templates_def)
qed

lemma run_tasks_effect:
  assumes "run_tasks env ks (t, s) = Inr (t', s')"
  shows "(\<forall>i. (\<forall>k\<in>set ks. task_id k \<noteq> i) \<longrightarrow> registry s' i = registry s i)
       \<and> (\<forall>i T. (\<exists>k\<in>set ks. task_id k = i)
               \<longrightarrow> (\<forall>k\<in>set ks. task_id k = i \<longrightarrow> Template i (task_source k) = T)
               \<longrightarrow> registry s' i = Some T)
       \<and> (\<forall>i. registry s i \<noteq> None \<longrightarrow> registry s' i \<noteq> None)
       \<and> userTemplates s' = userTemplates s
       \<and> page_templates s' = page_templates s \<and> log_lines s' = log_lines s
       \<and> written s' = written s \<and> (\<exists>cells. heap s' = heap s @ cells)
       \<and> template_name t' = template_name t \<and> template_reference t' = template_reference t
       \<and> template_markup t' = template_markup t \<and> template_file t' = template_file t
       \<and> template_exampleName t' = template_exampleName t
       \<and> template_exampleFile t' = template_exampleFile t
       \<and> ((\<forall>k\<in>set ks. \<forall>f. k \<noteq> Compile_template (task_id k) f)
            \<longrightarrow> template_context t' = template_context t)
       \<and> ((\<forall>k\<in>set ks. \<forall>f. k \<noteq> Compile_example (task_id k) f)
            \<longrightarrow> template_exampleContext t' = template_exampleContext t)"
  using assms
proof (induction ks arbitrary: t s)
  case Nil
  then show ?case by simp
next
  case (Cons k ks)
  from Cons.prems obtain t1 s1 where
    k: "run_task env k (t, s) = Inr (t1, s1)" and
    ks: "run_tasks env ks (t1, s1) = Inr (t', s')"
    by (auto split: sum.splits)
  note a = run_task_effect [OF k] and b = Cons.IH [OF ks]
  have reg1: "(\<forall>k'\<in>set (k # ks). task_id k' \<noteq> i) \<longrightarrow> registry s' i = registry s i" for i
    using a b by auto
  have reg2: "(\<exists>k'\<in>set (k # ks). task_id k' = i)
               \<longrightarrow> (\<forall>k'\<in>set (k # ks). task_id k' = i \<longrightarrow> Template i (task_source k') = T)
               \<longrightarrow> registry s' i = Some T" for i T
  proof (cases "\<exists>k'\<in>set ks. task_id k' = i")
    case True
    with b show ?thesis by auto
  next
    case False
    with a b show ?thesis by auto
  qed
  have reg3: "registry s i \<noteq> None \<longrightarrow> registry s' i \<noteq> None" for i
    using a b by auto
  have heap: "\<exists>cells. heap s' = heap s @ cells"
    using a b by auto
  from a b reg1 reg2 reg3 heap show ?case
    by (simp only: list.set ball_simps bex_simps) auto
qed


lemma run_tasks_parts:
  assumes "run_tasks env ks (t, s) = Inr (t', s')"
  shows "\<forall>i T. (\<exists>k\<in>set ks. task_id k = i)
               \<longrightarrow> (\<forall>k\<in>set ks. task_id k = i \<longrightarrow> Template i (task_source k) = T)
               \<longrightarrow> registry s' i = Some T"
    and "\<forall>i. registry s i \<noteq> None \<longrightarrow> registry s' i \<noteq> None"
    and "userTemplates s' = userTemplates s"
    and "page_templates s' = page_templates s"
    and "log_lines s' = log_lines s"
    and "\<exists>cells. heap s' = heap s @ cells"
    and "template_name t' = template_name t"
    and "template_reference t' = template_reference t"
    and "template_exampleName t' = template_exampleName t"
    and "template_exampleFile t' = template_exampleFile t"
  using run_tasks_effect [OF assms] by - (elim conjE, assumption)+

lemma first_named_append:
  "first_named env name (xs @ ys) =
     (case first_named env name xs of None \<Rightarrow> first_named env name ys | Some f \<Rightarrow> Some f)"
  by (induction xs) simp_all

lemma first_named_concat:
  assumes "i < length xss" and "\<forall>j<i. first_named env name (xss ! j) = None"
    and "first_named env name (xss ! i) = Some f"
  shows "first_named env name (concat xss) = Some f"
  using assms
proof (induction xss arbitrary: i)
  case Nil
  then show ?case by simp
next
  case (Cons xs xss)
  show ?case
  proof (cases i)
    case 0
    with Cons.prems show ?thesis by (simp add: first_named_append)
  next
    case (Suc i')
    with Cons.prems have "first_named env name xs = None"
      and "i' < length xss" and "\<forall>j<i'. first_named env name (xss ! j) = None"
      and "first_named env name (xss ! i') = Some f"
      by auto
    with Cons.IH [of i'] show ?thesis
      by (simp add: first_named_append)
  qed
qed


lemma concat_pairs:
  "concat (map g (concat (map (\<lambda>src. [a src, b src]) srcs)))
     = concat (map (\<lambda>src. g (a src) @ g (b src)) srcs)"
  by (induction srcs) simp_all

lemma findTemplates_searched:
  assumes "template_file t = markup" and "template_name t = path_basename env markup"
  shows "concat (map (glob env) (findTemplates opts t))
           = concat (map (searched env markup) (source opts))"
proof -
  have "searched env markup = (\<lambda>src. glob env (src @ ''/**/'' @ template_file t)
          @ glob env (src @ ''/**/kss-example-'' @ template_name t))"
    using assms by (simp add: searched_def fun_eq_iff)
  then show ?thesis
    by (simp only: findTemplates_def concat_pairs)
qed

lemma found_templates_cases:
  assumes "found_templates env opts gm t s = Inr s'"
  defines "sc \<equiv> scan_files env (concat gm)
                   \<lparr>foundTemplate = False, foundExample = False, scanned = t, compileTemplates = []\<rparr>"
  obtains t2 s3 tasks t3 s4 where
    "run_tasks env tasks (t2, s3) = Inr (t3, s4)" and "s' = saveTemplate t3 s4"
    and "tasks = compileTemplates sc @
           (if \<not> foundTemplate sc \<and> \<not> foundExample sc
            then [Compile_data (template_name (scanned sc))
                    (template_markup (scanned sc) @ '' NOT FOUND!'')]
            else if \<not> foundTemplate sc
            then [Compile_data (template_name (scanned sc)) ''{# Cannot be an empty string. #}'']
            else [])"
    and "t2 = (if \<not> foundTemplate sc \<and> \<not> foundExample sc
               then (scanned sc)\<lparr>template_markup := template_markup (scanned sc) @ '' NOT FOUND!''\<rparr>
               else scanned sc)"
    and "registry s3 = registry s" and "userTemplates s3 = userTemplates s"
    and "page_templates s3 = page_templates s" and "heap s3 = heap s"
    and "modules s3 = modules s"
    and "log_lines s3 = log_lines s @
           (if \<not> foundTemplate sc \<and> \<not> foundExample sc \<and> \<not> verbose opts
            then [''WARNING: In section '' @ template_reference (scanned sc) @ '', ''
                    @ template_markup (scanned sc) @ '' NOT FOUND!'']
            else [])
           @ (if verbose opts
              then ['' - '' @ template_reference t2 @ '': '' @ template_markup t2]
              else [])"
  using assms(1) unfolding sc_def
  by (auto simp: found_templates_def Let_def log_def scan_matches_concat page_templates_def
      split: if_splits sum.splits prod.splits)


lemma saveTemplate_simps [simp]:
  "registry (saveTemplate t s) = registry s"
  "page_templates (saveTemplate t s) = page_templates s"
  "heap (saveTemplate t s) = heap s"
  "log_lines (saveTemplate t s) = log_lines s"
  "userTemplates (saveTemplate t s) r =
     (if r = template_reference t
      then Some \<lparr>info_ref = template_name t, info_context = template_context t,
                 info_exampleRef = (if template_exampleFile t \<noteq> [] then template_exampleName t
                                    else None),
                 info_exampleContext = template_exampleContext t\<rparr>
      else userTemplates s r)"
  by (simp_all add: saveTemplate_def page_templates_def)

lemma found_templates_effect:
  assumes run: "found_templates env opts gm t s = Inr s'"
    and n: "template_name t = n" and en: "template_exampleName t = Some en"
    and ne: "n \<noteq> en" and nofile: "template_exampleFile t = []"
  shows "(\<forall>f. first_named env n (concat gm) = Some f \<longrightarrow> registry s' n = Some (Template n (Path f)))
      \<and> (\<forall>g. first_named env en (concat gm) = Some g
             \<longrightarrow> registry s' en = Some (Template en (Path g)))
      \<and> (\<exists>info. userTemplates s' (template_reference t) = Some info \<and> info_ref info = n
             \<and> info_exampleRef info =
                 (case first_named env en (concat gm) of
                    None \<Rightarrow> None | Some g \<Rightarrow> if g \<noteq> [] then Some en else None))
      \<and> registry s' n \<noteq> None
      \<and> page_templates s' = page_templates s
      \<and> (\<forall>i. registry s i \<noteq> None \<longrightarrow> registry s' i \<noteq> None)
      \<and> (\<forall>r. r \<noteq> template_reference t \<longrightarrow> userTemplates s' r = userTemplates s r)"
proof -
  define sc where "sc = scan_files env (concat gm)
      \<lparr>foundTemplate = False, foundExample = False, scanned = t, compileTemplates = []\<rparr>"
  from run obtain t2 s3 tasks t3 s4 where
    tasks_run: "run_tasks env tasks (t2, s3) = Inr (t3, s4)" and s': "s' = saveTemplate t3 s4"
    and tasks: "tasks = compileTemplates sc @
           (if \<not> foundTemplate sc \<and> \<not> foundExample sc
            then [Compile_data (template_name (scanned sc))
                    (template_markup (scanned sc) @ '' NOT FOUND!'')]
            else if \<not> foundTemplate sc
            then [Compile_data (template_name (scanned sc)) ''{# Cannot be an empty string. #}'']
            else [])"
    and t2: "t2 = (if \<not> foundTemplate sc \<and> \<not> foundExample sc
               then (scanned sc)\<lparr>template_markup := template_markup (scanned sc) @ '' NOT FOUND!''\<rparr>
               else scanned sc)"
    and s3: "registry s3 = registry s" "userTemplates s3 = userTemplates s"
      "page_templates s3 = page_templates s"
    unfolding sc_def by (rule found_templates_cases)
  have "template_name (scanned \<lparr>foundTemplate = False, foundExample = False, scanned = t,
          compileTemplates = []\<rparr>) = n"
    "template_exampleName (scanned \<lparr>foundTemplate = False, foundExample = False, scanned = t,
          compileTemplates = []\<rparr>) = Some en"
    using n en by simp_all
  from scan_files_result [OF this ne sc_def]
  have ft: "foundTemplate sc = (first_named env n (concat gm) \<noteq> None)"
    and fe: "foundExample sc = (first_named env en (concat gm) \<noteq> None)"
    and xf: "template_exampleFile (scanned sc) =
               (case first_named env en (concat gm) of None \<Rightarrow> template_exampleFile t | Some f \<Rightarrow> f)"
    and nm: "template_name (scanned sc) = n"
    and xn: "template_exampleName (scanned sc) = Some en"
    and rf: "template_reference (scanned sc) = template_reference t"
    and cs: "set (compileTemplates sc) =
       (case first_named env n (concat gm) of None \<Rightarrow> {} | Some f \<Rightarrow> {Compile_template n f})
       \<union> (case first_named env en (concat gm) of None \<Rightarrow> {} | Some f \<Rightarrow> {Compile_example en f})"
    by (simp_all split: option.splits)
  note parts = run_tasks_parts [OF tasks_run]
  have reg_new: "registry s4 i = Some T"
    if "\<exists>k\<in>set tasks. task_id k = i"
      "\<forall>k\<in>set tasks. task_id k = i \<longrightarrow> Template i (task_source k) = T" for i T
    using parts(1) that by blast
  have reg_mono: "registry s3 i \<noteq> None \<Longrightarrow> registry s4 i \<noteq> None" for i
    using parts(2) by blast
  note keep = parts(3,4,7,8,9,10)
  have t3: "template_name t3 = n" "template_reference t3 = template_reference t"
    "template_exampleName t3 = Some en"
    "template_exampleFile t3 =
       (case first_named env en (concat gm) of None \<Rightarrow> [] | Some f \<Rightarrow> f)"
    using keep t2 nm xn rf xf nofile by (simp_all split: if_splits option.splits)
  have st: "set tasks =
      (case first_named env n (concat gm) of
         None \<Rightarrow> {Compile_data n (if first_named env en (concat gm) = None
                                   then template_markup (scanned sc) @ '' NOT FOUND!''
                                   else ''{# Cannot be an empty string. #}'')}
       | Some f \<Rightarrow> {Compile_template n f})
      \<union> (case first_named env en (concat gm) of None \<Rightarrow> {} | Some g \<Rightarrow> {Compile_example en g})"
  proof (cases "first_named env n (concat gm)")
    case None
    show ?thesis
    proof (cases "first_named env en (concat gm)")
      case None
      with \<open>first_named env n (concat gm) = None\<close> show ?thesis
        by (simp add: tasks cs ft fe nm)
    next
      case (Some g)
      with None show ?thesis
        by (simp add: tasks cs ft fe nm insert_commute)
    qed
  next
    case (Some f)
    then show ?thesis
      by (simp add: tasks cs ft fe nm)
  qed
  have main: "registry s' n = Some (Template n (Path f))"
    if f: "first_named env n (concat gm) = Some f" for f
  proof -
    have "\<exists>k\<in>set tasks. task_id k = n"
      by (simp add: st f)
    moreover have "\<forall>k\<in>set tasks. task_id k = n \<longrightarrow> Template n (task_source k) = Template n (Path f)"
      using ne by (cases "first_named env en (concat gm)") (simp_all add: st f)
    ultimately have "registry s4 n = Some (Template n (Path f))" by (rule reg_new)
    then show ?thesis by (simp add: s')
  qed
  have example: "registry s' en = Some (Template en (Path g))"
    if g: "first_named env en (concat gm) = Some g" for g
  proof -
    have "\<exists>k\<in>set tasks. task_id k = en"
      by (simp add: st g)
    moreover have "\<forall>k\<in>set tasks. task_id k = en \<longrightarrow> Template en (task_source k) = Template en (Path g)"
      using ne by (cases "first_named env n (concat gm)") (auto simp: st g)
    ultimately have "registry s4 en = Some (Template en (Path g))" by (rule reg_new)
    then show ?thesis by (simp add: s')
  qed
  have registered: "registry s' n \<noteq> None"
  proof -
    obtain src where "\<exists>k\<in>set tasks. task_id k = n"
      "\<forall>k\<in>set tasks. task_id k = n \<longrightarrow> Template n (task_source k) = Template n src"
    proof (cases "first_named env n (concat gm)")
      case None
      let ?d = "if first_named env en (concat gm) = None
                then template_markup (scanned sc) @ '' NOT FOUND!''
                else ''{# Cannot be an empty string. #}''"
      have "\<exists>k\<in>set tasks. task_id k = n" by (simp add: st None)
      moreover have "\<forall>k\<in>set tasks. task_id k = n
          \<longrightarrow> Template n (task_source k) = Template n (Data ?d)"
        using ne by (cases "first_named env en (concat gm)") (simp_all add: st None)
      ultimately show ?thesis by (rule that)
    next
      case (Some f)
      have "\<exists>k\<in>set tasks. task_id k = n" by (simp add: st Some)
      moreover have "\<forall>k\<in>set tasks. task_id k = n
          \<longrightarrow> Template n (task_source k) = Template n (Path f)"
        using ne by (cases "first_named env en (concat gm)") (simp_all add: st Some)
      ultimately show ?thesis by (rule that)
    qed
    then have "registry s4 n = Some (Template n src)" by (rule reg_new)
    then show ?thesis by (simp add: s')
  qed
  have info: "\<exists>info. userTemplates s' (template_reference t) = Some info \<and> info_ref info = n
             \<and> info_exampleRef info =
                 (case first_named env en (concat gm) of
                    None \<Rightarrow> None | Some g \<Rightarrow> if g \<noteq> [] then Some en else None)"
    using t3 by (simp add: s' split: option.splits)
  have rest: "page_templates s' = page_templates s"
    "\<forall>i. registry s i \<noteq> None \<longrightarrow> registry s' i \<noteq> None"
    "\<forall>r. r \<noteq> template_reference t \<longrightarrow> userTemplates s' r = userTemplates s r"
    using keep reg_mono s3 t3 by (simp_all add: s')
  from main example registered info rest show ?thesis by blast
qed

lemma is_file_reference_nonempty: "is_file_reference m \<Longrightarrow> m \<noteq> []"
  by (auto simp: is_file_reference_def)

lemma resolve_file_reference:
  assumes "is_file_reference (section_markup sec)"
  shows "resolve_section env opts sec s =
     (case Promise_all (settle_order env (section_reference sec))
             (map (glob env) (findTemplates opts (file_template env sec s))) of
        None \<Rightarrow> Inl Unsettled
      | Some globMatches \<Rightarrow>
          found_templates env opts globMatches (file_template env sec s)
            (s\<lparr>heap := heap s @ [JObj [], JObj []]\<rparr>))"
  using assms is_file_reference_nonempty [OF assms]
  by (simp add: resolve_section_def new_template_eq resolve_file_def file_template_def Let_def
      split: option.splits)

lemma resolve_file_found:
  assumes "resolve_section env opts sec s = Inr s'" and "is_file_reference (section_markup sec)"
  shows "found_templates env opts (map (glob env) (findTemplates opts (file_template env sec s)))
           (file_template env sec s) (s\<lparr>heap := heap s @ [JObj [], JObj []]\<rparr>) = Inr s'"
proof -
  from assms obtain gm where
    p: "Promise_all (settle_order env (section_reference sec))
          (map (glob env) (findTemplates opts (file_template env sec s))) = Some gm"
    and f: "found_templates env opts gm (file_template env sec s)
              (s\<lparr>heap := heap s @ [JObj [], JObj []]\<rparr>) = Inr s'"
    by (auto simp: resolve_file_reference split: option.splits)
  from Promise_all_Some [OF p] f show ?thesis by simp
qed

lemma example_name_differs: "n \<noteq> ''kss-example-'' @ n"
proof
  assume "n = ''kss-example-'' @ n"
  then have "length n = length (''kss-example-'' @ n)" by simp
  then show False by simp
qed

lemma searched_all:
  "concat (map (glob env) (findTemplates opts (file_template env sec s)))
     = concat (map (searched env (section_markup sec)) (source opts))"
  by (rule findTemplates_searched) (simp_all add: file_template_def)

lemma resolved_file:
  assumes run: "resolve_section env opts sec s = Inr s'"
    and ref: "is_file_reference (section_markup sec)"
    and name: "name = path_basename env (section_markup sec)"
  shows "(\<forall>i f. i < length (source opts)
            \<longrightarrow> (\<forall>j<i. first_named env name (searched env (section_markup sec) (source opts ! j)) = None)
            \<longrightarrow> first_named env name (searched env (section_markup sec) (source opts ! i)) = Some f
            \<longrightarrow> registry s' name = Some (Template name (Path f)))
       \<and> (\<forall>k g. k < length (source opts)
            \<longrightarrow> (\<forall>j<k. first_named env (''kss-example-'' @ name)
                         (searched env (section_markup sec) (source opts ! j)) = None)
            \<longrightarrow> first_named env (''kss-example-'' @ name)
                         (searched env (section_markup sec) (source opts ! k)) = Some g
            \<longrightarrow> registry s' (''kss-example-'' @ name)
                   = Some (Template (''kss-example-'' @ name) (Path g))
              \<and> (g \<noteq> [] \<longrightarrow> (\<exists>info. userTemplates s' (section_reference sec) = Some info
                     \<and> info_exampleRef info = Some (''kss-example-'' @ name))))
       \<and> (\<exists>info. userTemplates s' (section_reference sec) = Some info \<and> info_ref info = name)"
proof -
  let ?t = "file_template env sec s"
  let ?all = "concat (map (searched env (section_markup sec)) (source opts))"
  have found: "found_templates env opts (map (glob env) (findTemplates opts ?t)) ?t
          (s\<lparr>heap := heap s @ [JObj [], JObj []]\<rparr>) = Inr s'"
    using run ref by (rule resolve_file_found)
  have n: "template_name ?t = name"
    and en: "template_exampleName ?t = Some (''kss-example-'' @ name)"
    and nofile: "template_exampleFile ?t = []"
    and reference: "template_reference ?t = section_reference sec"
    by (simp_all add: file_template_def name)
  note e = found_templates_effect [OF found n en example_name_differs nofile,
      unfolded searched_all reference]
  from e have eff: "\<forall>f. first_named env name ?all = Some f \<longrightarrow> registry s' name = Some (Template name (Path f))"
    "\<forall>g. first_named env (''kss-example-'' @ name) ?all = Some g
          \<longrightarrow> registry s' (''kss-example-'' @ name) = Some (Template (''kss-example-'' @ name) (Path g))"
    "\<exists>info. userTemplates s' (section_reference sec) = Some info \<and> info_ref info = name
             \<and> info_exampleRef info =
                 (case first_named env (''kss-example-'' @ name) ?all of
                    None \<Rightarrow> None | Some g \<Rightarrow> if g \<noteq> [] then Some (''kss-example-'' @ name) else None)"
    by - (elim conjE, assumption)+
  have conc: "first_named env x ?all = Some f"
    if "i < length (source opts)"
      "\<forall>j<i. first_named env x (searched env (section_markup sec) (source opts ! j)) = None"
      "first_named env x (searched env (section_markup sec) (source opts ! i)) = Some f"
    for x i f
    using that by (intro first_named_concat [of i]) simp_all
  from eff conc show ?thesis by (auto split: option.splits)
qed

subsection \<open>The first source wins\<close>

lemma same_searches:
  "searched (env\<lparr>settle_order := order\<rparr>) = searched env"
  "first_named (env\<lparr>settle_order := order\<rparr>) = first_named env"
  "path_basename (env\<lparr>settle_order := order\<rparr>) = path_basename env"
  by (simp_all add: searched_def first_named_def fun_eq_iff)

text \<open>
  Claim C1. When several sources hold a file with the referenced name, the template
  compiled for the section is the first such file of the source listed first, whatever
  the order in which the searches complete.
\<close>

theorem first_root_wins:
  assumes run: "resolve_section env opts sec s = Inr s'"
    and ref: "is_file_reference (section_markup sec)"
    and name: "name = path_basename env (section_markup sec)"
    and i: "i < length (source opts)"
    and before: "\<forall>j<i. first_named env name (searched env (section_markup sec) (source opts ! j)) = None"
    and at: "first_named env name (searched env (section_markup sec) (source opts ! i)) = Some f"
  shows "registry s' name = Some (Template name (Path f))
       \<and> (\<exists>info. userTemplates s' (section_reference sec) = Some info \<and> info_ref info = name)
       \<and> (\<forall>order s2. resolve_section (env\<lparr>settle_order := order\<rparr>) opts sec s = Inr s2
             \<longrightarrow> registry s2 name = Some (Template name (Path f)))"
proof -
  from resolved_file [OF run ref name] i before at
  have "registry s' name = Some (Template name (Path f))"
    "\<exists>info. userTemplates s' (section_reference sec) = Some info \<and> info_ref info = name"
    by blast+
  moreover have "registry s2 name = Some (Template name (Path f))"
    if run2: "resolve_section (env\<lparr>settle_order := order\<rparr>) opts sec s = Inr s2" for order s2
  proof -
    have "name = path_basename (env\<lparr>settle_order := order\<rparr>) (section_markup sec)"
      using name by simp
    from resolved_file [OF run2 ref this] i before at show ?thesis
      unfolding same_searches by blast
  qed
  ultimately show ?thesis by blast
qed


lemma example_searches:
  "searched example_env ''button.twig'' ''a'' = [''a/kss-example-button.twig'']"
  "searched example_env ''button.twig'' ''b'' = [''b/x/button.twig'']"
  "searched example_env ''button.twig'' ''c'' = [''c/button.twig'']"
  "path_basename example_env ''button.twig'' = ''button.twig''"
  "path_basename example_env ''a/kss-example-button.twig'' = ''kss-example-button.twig''"
  "path_basename example_env ''b/x/button.twig'' = ''button.twig''"
  "path_basename example_env ''c/button.twig'' = ''button.twig''"
  by (simp_all add: searched_def example_env_def posix_basename_def)

lemma button_resolves:
  "\<exists>s'. resolve_section example_env example_options button_section new_builder = Inr s'"
proof -
  have ref: "is_file_reference (section_markup button_section)"
    by (simp add: button_section_def is_file_reference_def)
  have order: "settle_order example_env (section_reference button_section) = [5, 4, 3, 2, 1, 0]"
    by (simp add: example_env_def)
  have all: "Promise_all [5, 4, 3, 2, 1, 0] (map (glob example_env)
       (findTemplates example_options (file_template example_env button_section new_builder)))
     = Some (map (glob example_env)
       (findTemplates example_options (file_template example_env button_section new_builder)))"
    by (rule Promise_all_any_order) (auto simp: findTemplates_def example_options_def)
  show ?thesis
    unfolding resolve_file_reference [OF ref] order all
    by (simp add: found_templates_def findTemplates_def file_template_def button_section_def
        example_options_def example_env_def posix_basename_def Let_def twig_def
        require_sample_def alloc_def new_builder_def)
qed


lemma button_hypotheses:
  "is_file_reference (section_markup button_section)"
  "''button.twig'' = path_basename example_env (section_markup button_section)"
  "(1::nat) < length (source example_options)"
  "\<forall>j<1. first_named example_env ''button.twig''
            (searched example_env (section_markup button_section) (source example_options ! j)) = None"
  "first_named example_env ''button.twig''
     (searched example_env (section_markup button_section) (source example_options ! 1))
     = Some ''b/x/button.twig''"
  "(0::nat) < length (source example_options)"
  "\<forall>j<0. first_named example_env ''kss-example-button.twig''
            (searched example_env (section_markup button_section) (source example_options ! j)) = None"
  "first_named example_env ''kss-example-button.twig''
     (searched example_env (section_markup button_section) (source example_options ! 0))
     = Some ''a/kss-example-button.twig''"
  by (simp_all add: button_section_def is_file_reference_def example_options_def
      example_searches)

theorem first_root_wins_witness:
  "is_file_reference (section_markup button_section)
   \<and> (1::nat) < length (source example_options)
   \<and> first_named example_env ''button.twig'' (searched example_env ''button.twig'' ''a'') = None
   \<and> first_named example_env ''button.twig'' (searched example_env ''button.twig'' ''b'')
       = Some ''b/x/button.twig''
   \<and> first_named example_env ''button.twig'' (searched example_env ''button.twig'' ''c'')
       = Some ''c/button.twig''
   \<and> settle_order example_env ''1.1'' = [5, 4, 3, 2, 1, 0]
   \<and> (\<exists>s'. resolve_section example_env example_options button_section new_builder = Inr s'
         \<and> registry s' ''button.twig'' = Some (Template ''button.twig'' (Path ''b/x/button.twig'')))"
proof -
  from button_resolves obtain s' where
    run: "resolve_section example_env example_options button_section new_builder = Inr s'"
    by blast
  from first_root_wins [OF run button_hypotheses(1-5)]
  have "registry s' ''button.twig'' = Some (Template ''button.twig'' (Path ''b/x/button.twig''))"
    by blast
  with run have "\<exists>s'. resolve_section example_env example_options button_section new_builder = Inr s'
         \<and> registry s' ''button.twig'' = Some (Template ''button.twig'' (Path ''b/x/button.twig''))"
    by blast
  moreover have
    "first_named example_env ''button.twig'' (searched example_env ''button.twig'' ''a'') = None"
    "first_named example_env ''button.twig'' (searched example_env ''button.twig'' ''b'')
       = Some ''b/x/button.twig''"
    "first_named example_env ''button.twig'' (searched example_env ''button.twig'' ''c'')
       = Some ''c/button.twig''"
    "settle_order example_env ''1.1'' = [5, 4, 3, 2, 1, 0]"
    by (simp_all add: example_searches) (simp add: example_env_def)
  ultimately show ?thesis using button_hypotheses(1,3) by blast
qed


subsection \<open>A file found nowhere\<close>













subsection \<open>The page templates\<close>

lemma load_index_effect:
  assumes "load_index env opts s = Inr s'"
  shows "templates_index s' \<noteq> None \<and> templates_section s' = templates_section s
       \<and> templates_item s' = templates_item s"
proof -
  from assms obtain t s1 where
    tw: "twigAsync env ''@builderTwig/index.twig''
           (Path (path_resolve env (builder_dir opts) ''index.twig'')) s = Inr (t, s1)"
    and s': "s' = s1\<lparr>templates_index := Some t\<rparr>"
    by (auto simp: load_index_def simp del: twigAsync.simps split: sum.splits)
  from twigAsync_effect [OF tw] s' show ?thesis by simp
qed

lemma load_section_effect:
  "\<exists>s'. load_section env opts s = Inr s'
     \<and> templates_index s' = templates_index s \<and> templates_item s' = templates_item s
     \<and> (templates_index s \<noteq> None \<longrightarrow> templates_section s' \<noteq> None)
     \<and> ((\<exists>e. twigAsync env ''@builderTwig/section.twig''
                (Path (path_resolve env (builder_dir opts) ''section.twig'')) s = Inl e)
          \<longrightarrow> templates_section s' = templates_index s)"
proof (cases "twigAsync env ''@builderTwig/section.twig''
                (Path (path_resolve env (builder_dir opts) ''section.twig'')) s")
  case (Inl e)
  then show ?thesis by (simp add: load_section_def del: twigAsync.simps)
next
  case (Inr p)
  obtain t s1 where p: "p = (t, s1)" by (cases p)
  from twigAsync_effect [OF Inr [unfolded p]] Inr p show ?thesis
    by (simp add: load_section_def del: twigAsync.simps)
qed

lemma load_item_effect:
  "\<exists>s'. load_item env opts s = Inr s'
     \<and> templates_index s' = templates_index s \<and> templates_section s' = templates_section s
     \<and> (templates_section s \<noteq> None \<longrightarrow> templates_item s' \<noteq> None)
     \<and> ((\<exists>e. twigAsync env ''@builderTwig/item.twig''
                (Path (path_resolve env (builder_dir opts) ''item.twig'')) s = Inl e)
          \<longrightarrow> templates_item s'
                = (case templates_section s of Some t \<Rightarrow> Some t | None \<Rightarrow> templates_index s))"
proof (cases "twigAsync env ''@builderTwig/item.twig''
                (Path (path_resolve env (builder_dir opts) ''item.twig'')) s")
  case (Inl e)
  then show ?thesis by (auto simp: load_item_def simp del: twigAsync.simps)
next
  case (Inr p)
  obtain t s1 where p: "p = (t, s1)" by (cases p)
  from twigAsync_effect [OF Inr [unfolded p]] Inr p show ?thesis
    by (simp add: load_item_def del: twigAsync.simps)
qed

lemma loadTask_defined:
  assumes "loadTask env opts s = Inr s'"
  shows "templates_index s' \<noteq> None \<and> templates_section s' \<noteq> None \<and> templates_item s' \<noteq> None"
proof -
  from assms obtain s1 s2 where
    a: "(if templates_index s = None then load_index env opts s else Inr s) = Inr s1"
    and b: "(if templates_section s = None then load_section env opts s1 else Inr s1) = Inr s2"
    and c: "(if templates_item s = None then load_item env opts s2 else Inr s2) = Inr s'"
    by (auto simp: loadTask_def split: sum.splits)
  from a have 1: "templates_index s1 \<noteq> None \<and> templates_section s1 = templates_section s
       \<and> templates_item s1 = templates_item s"
    by (auto split: if_splits dest: load_index_effect)
  from b 1 load_section_effect [of env opts s1]
  have 2: "templates_index s2 \<noteq> None \<and> templates_section s2 \<noteq> None
       \<and> templates_item s2 = templates_item s"
    by (auto split: if_splits)
  from c 2 load_item_effect [of env opts s2] show ?thesis
    by (auto split: if_splits)
qed

lemma loadTask_loaded:
  assumes "templates_index s \<noteq> None" "templates_section s \<noteq> None" "templates_item s \<noteq> None"
  shows "loadTask env opts s = Inr s"
  using assms by (auto simp: loadTask_def)

lemma templates_log [simp]: "templates (log l s) k = templates s k"
  by (cases k) (simp_all add: templates_def log_def)




lemma resolve_section_effect:
  assumes run: "resolve_section env opts sec s = Inr s'"
  shows "page_templates s' = page_templates s
       \<and> (\<forall>i. registry s i \<noteq> None \<longrightarrow> registry s' i \<noteq> None)
       \<and> (section_markup sec \<noteq> [] \<longrightarrow>
            (\<exists>info. userTemplates s' (section_reference sec) = Some info
               \<and> registry s' (info_ref info) \<noteq> None))
       \<and> (\<forall>r. r \<noteq> section_reference sec \<longrightarrow> userTemplates s' r = userTemplates s r)"
proof (cases "section_markup sec = []")
  case True
  with run show ?thesis by (simp add: resolve_section_def)
next
  case False
  show ?thesis
  proof (cases "is_file_reference (section_markup sec)")
    case True
    have n: "template_name (file_template env sec s) = path_basename env (section_markup sec)"
      and en: "template_exampleName (file_template env sec s)
                 = Some (''kss-example-'' @ path_basename env (section_markup sec))"
      and nofile: "template_exampleFile (file_template env sec s) = []"
      and reference: "template_reference (file_template env sec s) = section_reference sec"
      by (simp_all add: file_template_def)
    have st: "page_templates (s\<lparr>heap := heap s @ [JObj [], JObj []]\<rparr>) = page_templates s"
      "registry (s\<lparr>heap := heap s @ [JObj [], JObj []]\<rparr>) = registry s"
      "userTemplates (s\<lparr>heap := heap s @ [JObj [], JObj []]\<rparr>) = userTemplates s"
      by simp_all
    note e = found_templates_effect [OF resolve_file_found [OF run True] n en
        example_name_differs nofile, unfolded reference st]
    from e have 1: "\<exists>info. userTemplates s' (section_reference sec) = Some info
        \<and> info_ref info = path_basename env (section_markup sec)"
      by blast
    from e have 2: "registry s' (path_basename env (section_markup sec)) \<noteq> None"
      by - (elim conjE, assumption)
    from e have 3: "page_templates s' = page_templates s"
      by - (elim conjE, assumption)
    from e have 4: "\<forall>i. registry s i \<noteq> None \<longrightarrow> registry s' i \<noteq> None"
      by - (elim conjE, assumption)
    from e have 5: "\<forall>r. r \<noteq> section_reference sec \<longrightarrow> userTemplates s' r = userTemplates s r"
      by - (elim conjE, assumption)
    from 1 2 have "\<exists>info. userTemplates s' (section_reference sec) = Some info
               \<and> registry s' (info_ref info) \<noteq> None"
      by auto
    with 3 4 5 show ?thesis by simp
  next
    case False
    with run \<open>section_markup sec \<noteq> []\<close> show ?thesis
      by (auto simp: resolve_section_def new_template_eq compileInline_def twig_def log_def
          saveTemplate_def page_templates_def split: if_splits)
  qed
qed

lemma resolve_section_registered:
  assumes run: "resolve_section env opts sec s = Inr s'" and reg: "registered s"
  shows "registered s'"
  unfolding registered_def
proof (intro allI impI)
  fix r info
  assume u: "userTemplates s' r = Some info"
  note e = resolve_section_effect [OF run]
  show "registry s' (info_ref info) \<noteq> None"
  proof (cases "r = section_reference sec \<and> section_markup sec \<noteq> []")
    case True
    with e u show ?thesis by auto
  next
    case False
    then have "userTemplates s' r = userTemplates s r"
    proof (cases "section_markup sec = []")
      case True
      with run show ?thesis by (simp add: resolve_section_def)
    next
      case m: False
      with False e show ?thesis by simp
    qed
    with u reg have "registry s (info_ref info) \<noteq> None" by (simp add: registered_def)
    with e show ?thesis by blast
  qed
qed

lemma resolve_sections_effect:
  assumes "resolve_sections env opts secs s = Inr s'" and "registered s"
  shows "page_templates s' = page_templates s \<and> registered s'
       \<and> (\<forall>r. userTemplates s r \<noteq> None \<longrightarrow> userTemplates s' r \<noteq> None)
       \<and> (\<forall>sec\<in>set secs. section_markup sec \<noteq> []
            \<longrightarrow> userTemplates s' (section_reference sec) \<noteq> None)"
  using assms
proof (induction secs arbitrary: s)
  case Nil
  then show ?case by simp
next
  case (Cons sec secs)
  from Cons.prems(1) obtain s1 where
    one: "resolve_section env opts sec s = Inr s1"
    and rest: "resolve_sections env opts secs s1 = Inr s'"
    by (auto split: sum.splits)
  note e = resolve_section_effect [OF one]
  note r1 = resolve_section_registered [OF one Cons.prems(2)]
  note ih = Cons.IH [OF rest r1]
  have keep: "\<forall>r. userTemplates s r \<noteq> None \<longrightarrow> userTemplates s1 r \<noteq> None"
  proof (intro allI impI)
    fix r assume u: "userTemplates s r \<noteq> None"
    show "userTemplates s1 r \<noteq> None"
    proof (cases "section_markup sec = []")
      case True
      with one u show ?thesis by (simp add: resolve_section_def)
    next
      case False
      with e u show ?thesis by (cases "r = section_reference sec") auto
    qed
  qed
  from e have here: "section_markup sec \<noteq> [] \<longrightarrow> userTemplates s1 (section_reference sec) \<noteq> None"
    by auto
  from ih e have "page_templates s' = page_templates s" by simp
  moreover from ih have "registered s'" by simp
  moreover from ih keep have "\<forall>r. userTemplates s r \<noteq> None \<longrightarrow> userTemplates s' r \<noteq> None"
    by blast
  moreover from ih here have "\<forall>x\<in>set (sec # secs). section_markup x \<noteq> []
            \<longrightarrow> userTemplates s' (section_reference x) \<noteq> None"
    by auto
  ultimately show ?case by simp
qed

lemma build_section_pages_compiled:
  "build_section_pages env opts sg roots s = Inr s' \<Longrightarrow> compiled s' = compiled s"
proof (induction roots arbitrary: s)
  case Nil
  then show ?case by simp
next
  case (Cons r roots)
  then show ?case by (auto split: sum.splits dest!: buildPage_compiled)
qed

lemma build_item_pages_compiled:
  "build_item_pages env opts sg secs s = Inr s' \<Longrightarrow> compiled s' = compiled s"
proof (induction secs arbitrary: s)
  case Nil
  then show ?case by simp
next
  case (Cons sec secs)
  then show ?case by (auto split: sum.splits dest!: buildPage_compiled)
qed

lemma compiled_log [simp]: "compiled (log l s) = compiled s"
  by (simp add: compiled_def log_def)

lemma build_pages_compiled:
  assumes "build_pages env opts sg s = Inr s'"
  shows "compiled s' = compiled s"
proof -
  from assms obtain s1 s2 where
    a: "buildPage env opts sg Index None []
             (if verbose opts then log ''...Building style guide pages:'' s else s) = Inr s1"
    and b: "build_section_pages env opts sg (sectionRoots (sections sg) []) s1 = Inr s2"
    and c: "(if templates_item s2 \<noteq> None
                then build_item_pages env opts sg (sections sg) s2
                else Inr s2) = Inr s'"
    by (auto simp: build_pages_def split: sum.splits)
  from buildPage_compiled [OF a] have "compiled s1 = compiled s" by (simp split: if_splits)
  moreover note build_section_pages_compiled [OF b]
  moreover from c have "compiled s' = compiled s2"
    by (auto split: if_splits dest: build_item_pages_compiled)
  ultimately show ?thesis by simp
qed

lemma build_phases:
  assumes "build env opts sg s = Inr s'"
  obtains s0 s4 s5 where
    "page_templates s0 = page_templates s" "registry s0 = Map.empty"
    "userTemplates s0 = Map.empty"
    "loadTask env opts s0 = Inr s4"
    "resolve_sections env opts (sections sg) s4 = Inr s5"
    "build_pages env opts sg s5 = Inr s'"
proof -
  define s0 where "s0 = (let s1 = registryReset (s\<lparr>userTemplates := Map.empty\<rparr>);
          s2 = (case meta_files sg of
                  None \<Rightarrow> s1
                | Some files \<Rightarrow>
                    (if verbose opts
                     then log (join_with [CHR 0x0A] (map (\<lambda>file. '' - '' @ file) files)) s1
                     else s1))
          in (if verbose opts then log ''...Determining section markup:'' s2 else s2))"
  have "page_templates s0 = page_templates s" "registry s0 = Map.empty"
    "userTemplates s0 = Map.empty"
    by (simp_all add: s0_def Let_def registryReset_def log_def page_templates_def
        split: option.splits)
  moreover from assms obtain s4 s5 where "loadTask env opts s0 = Inr s4"
    "resolve_sections env opts (sections sg) s4 = Inr s5"
    "build_pages env opts sg s5 = Inr s'"
    by (auto simp: build_def s0_def Let_def split: sum.splits)
  ultimately show thesis by (rule that)
qed





lemmas build_defs =
  build_def loadTask_def load_index_def load_section_def load_item_def twig_def
  registryReset_def log_def resolve_section_def new_template_def alloc_def
  is_file_reference_def compileInline_def saveTemplate_def build_pages_def buildPage_def
  getHomepageText_def templateName_def templates_def section_at_def styles_def scripts_def
  sections_under_def render_section_def twigAsync_ref_def placeholder_data_def
  copy_context_def read_modifier_class_def write_modifier_class_def render_data_def
  modifier_data_def render_modifier_def exampleRef_def deref_def store_def
  tiny_guide_def example_defs Let_def

lemma tiny_builds:
  "\<exists>s1 s2. build example_env example_options tiny_guide new_builder = Inr s1
     \<and> build example_env example_options tiny_guide s1 = Inr s2
     \<and> registry s1 ''@builderTwig/index.twig'' \<noteq> None
     \<and> registry s2 ''@builderTwig/index.twig'' = None"
  by (simp add: build_defs)

lemma resolve_sections_templates:
  "resolve_sections env opts secs s = Inr s' \<Longrightarrow> page_templates s' = page_templates s"
proof (induction secs arbitrary: s)
  case Nil
  then show ?case by simp
next
  case (Cons sec secs)
  from Cons.prems obtain s1 where
    one: "resolve_section env opts sec s = Inr s1"
    and rest: "resolve_sections env opts secs s1 = Inr s'"
    by (auto split: sum.splits)
  from resolve_section_effect [OF one] Cons.IH [OF rest] show ?case by simp
qed

lemma compiled_parts:
  assumes "compiled s' = compiled s"
  shows "page_templates s' = page_templates s" "userTemplates s' = userTemplates s"
    "registry s' = registry s"
  using assms by (simp_all add: compiled_def)

text \<open>
  Claim C10. After a build that succeeded the three page templates are defined, and a
  later build on the same builder, whatever its style guide and options, leaves them as
  they are: its load task runs on a builder with an empty registry and returns that
  builder unchanged, compiling nothing. The templates of the sections are compiled
  again from that empty registry: after the later build every section with markup has
  a template record, and the registry holds the template the record names.
\<close>

theorem page_templates_compiled_once:
  assumes first: "build env opts sg s = Inr s1"
    and later: "build env' opts' sg' s1 = Inr s2"
  shows "templates s1 Index \<noteq> None \<and> templates s1 Section \<noteq> None \<and> templates s1 Item \<noteq> None
       \<and> page_templates s2 = page_templates s1
       \<and> (\<exists>s0 s5. page_templates s0 = page_templates s1 \<and> registry s0 = Map.empty
             \<and> loadTask env' opts' s0 = Inr s0
             \<and> resolve_sections env' opts' (sections sg') s0 = Inr s5
             \<and> build_pages env' opts' sg' s5 = Inr s2)
       \<and> (\<forall>sec\<in>set (sections sg'). section_markup sec \<noteq> []
            \<longrightarrow> (\<exists>info t. userTemplates s2 (section_reference sec) = Some info
                   \<and> registry s2 (info_ref info) = Some t))"
proof -
  from first obtain a0 a4 a5 where
    "loadTask env opts a0 = Inr a4" "resolve_sections env opts (sections sg) a4 = Inr a5"
    "build_pages env opts sg a5 = Inr s1"
    by (rule build_phases)
  from loadTask_defined [OF this(1)] resolve_sections_templates [OF this(2)]
    compiled_parts(1) [OF build_pages_compiled [OF this(3)]]
  have defined: "templates_index s1 \<noteq> None" "templates_section s1 \<noteq> None"
    "templates_item s1 \<noteq> None"
    by (simp_all add: page_templates_def)
  from later obtain b0 b4 b5 where
    b0: "page_templates b0 = page_templates s1" "registry b0 = Map.empty"
      "userTemplates b0 = Map.empty"
    and load: "loadTask env' opts' b0 = Inr b4"
    and resolve: "resolve_sections env' opts' (sections sg') b4 = Inr b5"
    and pages: "build_pages env' opts' sg' b5 = Inr s2"
    by (rule build_phases)
  from b0(1) defined have "templates_index b0 \<noteq> None" "templates_section b0 \<noteq> None"
    "templates_item b0 \<noteq> None"
    by (simp_all add: page_templates_def)
  from loadTask_loaded [OF this] load have b4: "b4 = b0" by simp
  from b0(3) have "registered b0" by (simp add: registered_def)
  from resolve_sections_effect [OF resolve [unfolded b4] this]
  have r1: "page_templates b5 = page_templates b0" and r2: "registered b5"
    and r3: "\<forall>sec\<in>set (sections sg'). section_markup sec \<noteq> []
            \<longrightarrow> userTemplates b5 (section_reference sec) \<noteq> None"
    by simp_all
  note c = compiled_parts [OF build_pages_compiled [OF pages]]
  from c(1) r1 b0(1) have same: "page_templates s2 = page_templates s1" by simp
  have each: "\<forall>sec\<in>set (sections sg'). section_markup sec \<noteq> []
            \<longrightarrow> (\<exists>info t. userTemplates s2 (section_reference sec) = Some info
                   \<and> registry s2 (info_ref info) = Some t)"
  proof (intro ballI impI)
    fix sec assume "sec \<in> set (sections sg')" "section_markup sec \<noteq> []"
    with r3 obtain info where u: "userTemplates b5 (section_reference sec) = Some info"
      by blast
    with r2 obtain t where "registry b5 (info_ref info) = Some t"
      by (auto simp: registered_def)
    with u c show "\<exists>info t. userTemplates s2 (section_reference sec) = Some info
                   \<and> registry s2 (info_ref info) = Some t"
      by simp
  qed
  from b0 load resolve pages b4
  have "\<exists>s0 s5. page_templates s0 = page_templates s1 \<and> registry s0 = Map.empty
             \<and> loadTask env' opts' s0 = Inr s0
             \<and> resolve_sections env' opts' (sections sg') s0 = Inr s5
             \<and> build_pages env' opts' sg' s5 = Inr s2"
    by blast
  with defined same each show ?thesis by (simp add: templates_def)
qed

theorem page_templates_compiled_once_witness:
  "\<exists>s1 s2. build example_env example_options tiny_guide new_builder = Inr s1
     \<and> build example_env example_options tiny_guide s1 = Inr s2
     \<and> page_templates s2 = page_templates s1
     \<and> registry s1 ''@builderTwig/index.twig'' \<noteq> None
     \<and> registry s2 ''@builderTwig/index.twig'' = None
     \<and> (\<exists>info t. userTemplates s2 ''1'' = Some info \<and> registry s2 (info_ref info) = Some t)"
proof -
  from tiny_builds obtain s1 s2 where
    first: "build example_env example_options tiny_guide new_builder = Inr s1"
    and later: "build example_env example_options tiny_guide s1 = Inr s2"
    and reg: "registry s1 ''@builderTwig/index.twig'' \<noteq> None"
      "registry s2 ''@builderTwig/index.twig'' = None"
    by blast
  note t = page_templates_compiled_once [OF first later]
  from t have same: "page_templates s2 = page_templates s1" by simp
  from t have "\<forall>sec\<in>set (sections tiny_guide). section_markup sec \<noteq> []
            \<longrightarrow> (\<exists>info t. userTemplates s2 (section_reference sec) = Some info
                   \<and> registry s2 (info_ref info) = Some t)"
    by - (elim conjE, assumption)
  then have "\<exists>info t. userTemplates s2 ''1'' = Some info \<and> registry s2 (info_ref info) = Some t"
    by (simp add: tiny_guide_def inline_section_def)
  with first later same reg show ?thesis by blast
qed

end
